theory Spec2Isabelle
  imports Complex_Main
begin

section \<open>Scalars, errors and tensor shapes\<close>

text \<open>
  The wireframe autoencoder of \<^verbatim>\<open>src/vae/vae_wireframe.py\<close> is embedded on two levels.
  The shape level follows every tensor of \<^verbatim>\<open>Encoder1D\<close>, \<^verbatim>\<open>Decoder1D\<close>, the
  prediction heads and the model classes through its list of axis sizes, with PyTorch's
  broadcasting and every shape failure as an error value. The value level embeds
  \<^verbatim>\<open>AutoencoderKLWireframe.loss\<close> and the control flow of \<^verbatim>\<open>forward\<close> on nested lists of
  scalars.

  A floating-point scalar is a real number or one of the three non-finite values of
  IEEE arithmetic. Rounding and overflow of finite values are not modelled; the rules for
  infinities and NaN are.
\<close>

datatype fl = Fin real | PInf | NInf | NaN

fun fneg :: "fl \<Rightarrow> fl" where
  "fneg (Fin a) = Fin (- a)"
| "fneg PInf = NInf"
| "fneg NInf = PInf"
| "fneg NaN = NaN"

fun fadd :: "fl \<Rightarrow> fl \<Rightarrow> fl" where
  "fadd NaN _ = NaN"
| "fadd _ NaN = NaN"
| "fadd PInf NInf = NaN"
| "fadd NInf PInf = NaN"
| "fadd PInf _ = PInf"
| "fadd _ PInf = PInf"
| "fadd NInf _ = NInf"
| "fadd _ NInf = NInf"
| "fadd (Fin a) (Fin b) = Fin (a + b)"

definition fsub :: "fl \<Rightarrow> fl \<Rightarrow> fl" where
  "fsub a b = fadd a (fneg b)"

fun finf_mul :: "bool \<Rightarrow> fl \<Rightarrow> fl" where
  "finf_mul pos (Fin a) =
     (if a = 0 then NaN else if (0 < a) = pos then PInf else NInf)"
| "finf_mul pos PInf = (if pos then PInf else NInf)"
| "finf_mul pos NInf = (if pos then NInf else PInf)"
| "finf_mul pos NaN = NaN"

fun fmul :: "fl \<Rightarrow> fl \<Rightarrow> fl" where
  "fmul (Fin a) (Fin b) = Fin (a * b)"
| "fmul NaN _ = NaN"
| "fmul _ NaN = NaN"
| "fmul PInf b = finf_mul True b"
| "fmul NInf b = finf_mul False b"
| "fmul a PInf = finf_mul True a"
| "fmul a NInf = finf_mul False a"

fun fexp :: "fl \<Rightarrow> fl" where
  "fexp (Fin a) = Fin (exp a)"
| "fexp PInf = PInf"
| "fexp NInf = Fin 0"
| "fexp NaN = NaN"

fun flog :: "fl \<Rightarrow> fl" where
  "flog (Fin a) = (if a < 0 then NaN else if a = 0 then NInf else Fin (ln a))"
| "flog PInf = PInf"
| "flog NInf = NaN"
| "flog NaN = NaN"

fun fabs :: "fl \<Rightarrow> fl" where
  "fabs (Fin a) = Fin \<bar>a\<bar>"
| "fabs PInf = PInf"
| "fabs NInf = PInf"
| "fabs NaN = NaN"

text \<open>\<^verbatim>\<open>torch.clamp(x, lo, hi)\<close>: NaN stays NaN, the infinities land on the bounds.\<close>

fun fclamp :: "real \<Rightarrow> real \<Rightarrow> fl \<Rightarrow> fl" where
  "fclamp lo hi (Fin a) = Fin (min (max a lo) hi)"
| "fclamp lo hi PInf = Fin hi"
| "fclamp lo hi NInf = Fin lo"
| "fclamp lo hi NaN = NaN"

definition fsum :: "fl list \<Rightarrow> fl" where
  "fsum xs = foldr fadd xs (Fin 0)"

text \<open>
  Division of a sum by a number of elements. Nothing divided by no element is NaN, as
  \<^verbatim>\<open>0 / 0\<close> is.
\<close>

fun fdiv_count :: "fl \<Rightarrow> nat \<Rightarrow> fl" where
  "fdiv_count (Fin a) n =
     (if n = 0 then (if a = 0 then NaN else if 0 < a then PInf else NInf)
      else Fin (a / real n))"
| "fdiv_count PInf n = PInf"
| "fdiv_count NInf n = NInf"
| "fdiv_count NaN n = NaN"

text \<open>\<^verbatim>\<open>Tensor.mean()\<close> over all elements; the mean of no element is NaN.\<close>

definition fmean :: "fl list \<Rightarrow> fl" where
  "fmean xs = fdiv_count (fsum xs) (length xs)"


datatype error = ShapeError | IndexError | AssertionError | ZeroDivisionError | AttributeError

definition bindE :: "error + 'a \<Rightarrow> ('a \<Rightarrow> error + 'b) \<Rightarrow> error + 'b" where
  "bindE r f = (case r of Inl e \<Rightarrow> Inl e | Inr v \<Rightarrow> f v)"

type_synonym shape = "nat list"

text \<open>Width of the Python slice \<^verbatim>\<open>t[..., lo:hi]\<close> of an axis of size \<open>n\<close> (bounds not negative).\<close>

definition slice_len :: "nat \<Rightarrow> nat \<Rightarrow> nat \<Rightarrow> nat" where
  "slice_len lo hi n = min hi n - min lo n"

text \<open>Broadcasting of two axis sizes, and of two shapes aligned at their last axes.\<close>

definition bdim :: "nat \<Rightarrow> nat \<Rightarrow> nat option" where
  "bdim a b = (if a = b then Some a else if a = 1 then Some b
               else if b = 1 then Some a else None)"

fun bcast_rev :: "nat list \<Rightarrow> nat list \<Rightarrow> nat list option" where
  "bcast_rev [] ys = Some ys"
| "bcast_rev xs [] = Some xs"
| "bcast_rev (x # xs) (y # ys) =
     (case bdim x y of
        None \<Rightarrow> None
      | Some d \<Rightarrow> (case bcast_rev xs ys of None \<Rightarrow> None | Some r \<Rightarrow> Some (d # r)))"

definition broadcast :: "shape \<Rightarrow> shape \<Rightarrow> error + shape" where
  "broadcast a b =
     (case bcast_rev (rev a) (rev b) of None \<Rightarrow> Inl ShapeError | Some r \<Rightarrow> Inr (rev r))"

text \<open>\<^verbatim>\<open>nn.Linear(in_features, out_features)\<close> acts on the last axis.\<close>

definition linear_shape :: "nat \<Rightarrow> nat \<Rightarrow> shape \<Rightarrow> error + shape" where
  "linear_shape in_features out_features s =
     (if s \<noteq> [] \<and> last s = in_features then Inr (butlast s @ [out_features])
      else Inl ShapeError)"

text \<open>
  \<^verbatim>\<open>nn.Embedding(num_embeddings, dim)\<close> on an index tensor of shape \<open>s\<close> holding the
  indices \<open>idx\<close>: every index has to lie in the table.
\<close>

definition embedding_shape :: "nat \<Rightarrow> nat \<Rightarrow> int list \<Rightarrow> shape \<Rightarrow> error + shape" where
  "embedding_shape num_embeddings width idx s =
     (if list_all (\<lambda>i. 0 \<le> i \<and> i < int num_embeddings) idx then Inr (s @ [width])
      else Inl IndexError)"

section \<open>Configuration and construction\<close>

record config =
  latent_channels :: nat
  max_col_diff :: nat
  max_row_diff :: nat
  attn_encoder_depth :: nat
  attn_decoder_self_depth :: nat
  attn_decoder_cross_depth :: nat
  attn_dim :: nat
  num_heads :: nat
  max_curves_num :: nat
  wireframe_latent_num :: nat
  label_smoothing :: fl
  cls_loss_weight :: fl
  segment_loss_weight :: fl
  col_diff_loss_weight :: fl
  row_diff_loss_weight :: fl
  curve_latent_loss_weight :: fl
  kl_loss_weight :: fl
  curve_latent_embed_dim :: nat
  use_mlp_predict :: bool
  use_focal_loss :: bool
  use_latent_pos_emb :: bool

text \<open>What \<^verbatim>\<open>Encoder1D.__init__\<close> fixes: the sizes of its layers and parameters.\<close>

record encoder1d =
  enc_max_curves_num :: nat
  enc_wireframe_latent_num :: nat
  enc_coor_embed_dim :: nat
  enc_max_col_diff :: nat
  enc_col_diff_embed_dim :: nat
  enc_max_row_diff :: nat
  enc_row_diff_embed_dim :: nat
  enc_curve_latent_channels :: nat
  enc_curve_latent_embed_dim :: nat
  enc_attn_dim :: nat
  enc_out_channels :: nat

text \<open>
  \<^verbatim>\<open>Encoder1D(out_channels, attn_kwargs, max_curves_num, wireframe_latent_num,
  curve_latent_embed_dim)\<close> as the three model classes call it: every other argument keeps
  its default (\<^verbatim>\<open>coor_embed_dim = 128\<close>, \<^verbatim>\<open>max_col_diff = 6\<close>, \<^verbatim>\<open>max_row_diff = 32\<close>,
  \<^verbatim>\<open>col_diff_embed_dim = 16\<close>, \<^verbatim>\<open>row_diff_embed_dim = 32\<close>, \<^verbatim>\<open>curve_latent_channels = 12\<close>,
  \<^verbatim>\<open>double_z = True\<close>).
\<close>

definition Encoder1D_init :: "nat \<Rightarrow> nat \<Rightarrow> nat \<Rightarrow> nat \<Rightarrow> nat \<Rightarrow> encoder1d" where
  "Encoder1D_init out_channels adim max_curves wireframe_latents latent_embed_dim =
     \<lparr> enc_max_curves_num = max_curves,
       enc_wireframe_latent_num = wireframe_latents,
       enc_coor_embed_dim = 128,
       enc_max_col_diff = 6,
       enc_col_diff_embed_dim = 16,
       enc_max_row_diff = 32,
       enc_row_diff_embed_dim = 32,
       enc_curve_latent_channels = 12,
       enc_curve_latent_embed_dim = latent_embed_dim,
       enc_attn_dim = adim,
       enc_out_channels = 2 * out_channels \<rparr>"

record decoder1d =
  dec_in_channels :: nat
  dec_attn_dim :: nat
  dec_max_curves_num :: nat
  dec_wireframe_latent_num :: nat
  dec_use_latent_pos_emb :: bool

text \<open>
  \<^verbatim>\<open>Decoder1D(in_channels, attn_kwargs, max_curves_num, use_latent_pos_emb)\<close> as the model
  classes call it: \<^verbatim>\<open>wireframe_latent_num\<close> is not passed and keeps its default 64.
\<close>

definition Decoder1D_init :: "nat \<Rightarrow> nat \<Rightarrow> nat \<Rightarrow> bool \<Rightarrow> decoder1d" where
  "Decoder1D_init in_channels adim max_curves latent_pos_emb =
     \<lparr> dec_in_channels = in_channels,
       dec_attn_dim = adim,
       dec_max_curves_num = max_curves,
       dec_wireframe_latent_num = 64,
       dec_use_latent_pos_emb = latent_pos_emb \<rparr>"

text \<open>
  The prediction heads built by \<^verbatim>\<open>__init__\<close>: either four MLPs (input width, then the
  output widths of \<^verbatim>\<open>predict_cls\<close>, \<^verbatim>\<open>predict_diffs\<close>, \<^verbatim>\<open>predict_segments\<close>,
  \<^verbatim>\<open>predict_curve_latent\<close>) or two linear layers (input width, then the output widths of
  \<^verbatim>\<open>predict_cls\<close> and \<^verbatim>\<open>predict_features\<close>).
\<close>

datatype heads = MLPHeads nat nat nat nat nat | LinearHeads nat nat nat

definition init_heads :: "bool \<Rightarrow> nat \<Rightarrow> nat \<Rightarrow> nat \<Rightarrow> nat \<Rightarrow> heads" where
  "init_heads use_mlp adim max_curves max_col max_row =
     (if use_mlp then MLPHeads adim max_curves (max_col + max_row) 6 12
      else (let out_dim = 6 + 6 + 32 + 12 in LinearHeads adim max_curves out_dim))"

text \<open>\<^verbatim>\<open>torch.linspace(a, b, steps)\<close>, on ideal reals.\<close>

definition linspace :: "real \<Rightarrow> real \<Rightarrow> nat \<Rightarrow> real list" where
  "linspace a b steps =
     (if steps = 1 then [a]
      else map (\<lambda>i. a + real i * ((b - a) / real (steps - 1))) [0..<steps])"

text \<open>
  The module that \<^verbatim>\<open>AutoencoderKLWireframe.__init__\<close> builds: the registered configuration,
  the sizes of the sub-modules, and the three registered buffers.
\<close>

record wireframe_model =
  m_config :: config
  m_encoder :: encoder1d
  m_decoder :: decoder1d
  m_heads :: heads
  m_col_diff_class_weights :: "fl list"
  m_row_diff_class_weights :: "fl list"
  m_col_weights :: "fl list"

definition AutoencoderKLWireframe_init :: "config \<Rightarrow> wireframe_model" where
  "AutoencoderKLWireframe_init c =
     (let col_diff_labels = linspace (- 1) 1 (max_col_diff c);
          col_diff_class_weights = map (\<lambda>x. fexp (Fin x)) col_diff_labels;
          row_diff_labels = linspace (- 1) 1 (max_row_diff c);
          row_diff_class_weights = map (\<lambda>x. fexp (Fin x)) row_diff_labels;
          t = linspace 0 2 (max_curves_num c);
          col_weights =
            map (\<lambda>x. fsub (Fin 1.2) (fmul (Fin 0.2) (flog (fadd (Fin x) (Fin 1.7183))))) t
      in \<lparr> m_config = c,
           m_encoder = Encoder1D_init (latent_channels c) (attn_dim c) (max_curves_num c)
                         (wireframe_latent_num c) (curve_latent_embed_dim c),
           m_decoder = Decoder1D_init (latent_channels c) (attn_dim c) (max_curves_num c)
                         (use_latent_pos_emb c),
           m_heads = init_heads (use_mlp_predict c) (attn_dim c) (max_curves_num c)
                       (max_col_diff c) (max_row_diff c),
           m_col_diff_class_weights = col_diff_class_weights,
           m_row_diff_class_weights = row_diff_class_weights,
           m_col_weights = col_weights \<rparr>)"

text \<open>The default arguments of \<^verbatim>\<open>AutoencoderKLWireframe.__init__\<close>.\<close>

definition default_config :: config where
  "default_config =
     \<lparr> latent_channels = 8, max_col_diff = 6, max_row_diff = 32,
       attn_encoder_depth = 4, attn_decoder_self_depth = 6, attn_decoder_cross_depth = 2,
       attn_dim = 512, num_heads = 8, max_curves_num = 128, wireframe_latent_num = 64,
       label_smoothing = Fin 0.005, cls_loss_weight = Fin 1, segment_loss_weight = Fin 1,
       col_diff_loss_weight = Fin 1, row_diff_loss_weight = Fin 1,
       curve_latent_loss_weight = Fin 1, kl_loss_weight = Fin 0.0002,
       curve_latent_embed_dim = 256, use_mlp_predict = False, use_focal_loss = False,
       use_latent_pos_emb = False \<rparr>"

section \<open>Prediction heads, on shapes\<close>

text \<open>
  The four shapes a prediction strategy returns: \<^verbatim>\<open>pred_cls_logits\<close>, \<^verbatim>\<open>pred_segments\<close>,
  \<^verbatim>\<open>pred_diffs_logits\<close>, \<^verbatim>\<open>pred_curve_latent\<close>.
\<close>

type_synonym pred_shapes = "shape \<times> shape \<times> shape \<times> shape"

text \<open>
  \<^verbatim>\<open>linear_predict(self, dec)\<close>, the same code in \<^verbatim>\<open>AutoencoderKLWireframe\<close> and in
  \<^verbatim>\<open>AutoencoderKLWireframeFastDecode\<close>; \<open>max_col\<close> and \<open>max_row\<close> are
  \<^verbatim>\<open>self.max_col_diff\<close> and \<^verbatim>\<open>self.max_row_diff\<close>. \<^verbatim>\<open>dec[:, 0]\<close> drops the second
  axis, \<^verbatim>\<open>dec[:, 1:]\<close> shortens it by one; the three \<^verbatim>\<open>assert\<close>s follow the slices.
\<close>

definition linear_predict_shape :: "nat \<Rightarrow> nat \<Rightarrow> heads \<Rightarrow> shape \<Rightarrow> error + pred_shapes" where
  "linear_predict_shape max_col max_row h dec =
     (case h of
        MLPHeads _ _ _ _ _ \<Rightarrow> Inl AttributeError
      | LinearHeads in_dim cls_out features_out \<Rightarrow>
          (case dec of
             b # n # rest \<Rightarrow>
               (let num_segments = 6;
                    num_diffs = num_segments + max_col + max_row
                in if n = 0 then Inl IndexError
                   else
                     bindE (linear_shape in_dim cls_out (b # rest)) (\<lambda>pred_cls_logits.
                     bindE (linear_shape in_dim features_out (b # (n - 1) # rest))
                       (\<lambda>pred_features_logits.
                       (let w = last pred_features_logits;
                            lead = butlast pred_features_logits;
                            w_segments = slice_len 0 num_segments w;
                            w_diffs = slice_len num_segments num_diffs w;
                            w_curve_latent = slice_len num_diffs w w
                        in if w_segments \<noteq> num_segments then Inl AssertionError
                           else if w_diffs \<noteq> max_col + max_row then Inl AssertionError
                           else if w_curve_latent \<noteq> 12 then Inl AssertionError
                           else Inr (pred_cls_logits, lead @ [w_segments], lead @ [w_diffs],
                                     lead @ [w_curve_latent])))))
           | _ \<Rightarrow> Inl IndexError))"

text \<open>
  Modelled from the spec: the class \<^verbatim>\<open>MLP\<close> of \<^verbatim>\<open>src.vae.modules\<close> is not among the sources.
  The spec calls the four heads small feed-forward networks that consume the same token
  sets; each is taken to map the last axis from \<^verbatim>\<open>in_dim\<close> to \<^verbatim>\<open>out_dim\<close>, as a linear
  layer does.
\<close>

definition MLP_shape :: "nat \<Rightarrow> nat \<Rightarrow> shape \<Rightarrow> error + shape" where
  "MLP_shape in_dim out_dim s = linear_shape in_dim out_dim s"

definition mlp_predict_shape :: "heads \<Rightarrow> shape \<Rightarrow> error + pred_shapes" where
  "mlp_predict_shape h dec =
     (case h of
        LinearHeads _ _ _ \<Rightarrow> Inl AttributeError
      | MLPHeads in_dim cls_out diffs_out segments_out curve_latent_out \<Rightarrow>
          (case dec of
             b # n # rest \<Rightarrow>
               (if n = 0 then Inl IndexError
                else
                  (let cls_token = b # rest;
                       features_tokens = b # (n - 1) # rest
                   in bindE (MLP_shape in_dim cls_out cls_token) (\<lambda>pred_cls_logits.
                      bindE (MLP_shape in_dim segments_out features_tokens) (\<lambda>pred_segments.
                      bindE (MLP_shape in_dim diffs_out features_tokens) (\<lambda>pred_diffs_logits.
                      bindE (MLP_shape in_dim curve_latent_out features_tokens)
                        (\<lambda>pred_curve_latent.
                        Inr (pred_cls_logits, pred_segments, pred_diffs_logits,
                             pred_curve_latent)))))))
           | _ \<Rightarrow> Inl IndexError))"

definition linear_predict :: "wireframe_model \<Rightarrow> shape \<Rightarrow> error + pred_shapes" where
  "linear_predict m dec =
     linear_predict_shape (max_col_diff (m_config m)) (max_row_diff (m_config m)) (m_heads m) dec"


text \<open>The output width of \<^verbatim>\<open>self.predict_features\<close>, when the linear strategy is built.\<close>

definition predict_features_width :: "wireframe_model \<Rightarrow> nat option" where
  "predict_features_width m =
     (case m_heads m of LinearHeads _ _ features_out \<Rightarrow> Some features_out | _ \<Rightarrow> None)"

section \<open>Encoder and decoder, on shapes\<close>

text \<open>
  One entry of the flag and offset tensor \<^verbatim>\<open>flag_diffs\<close>, whose last axis the source
  declares as \<^verbatim>\<open>1+2\<close> integers: \<^verbatim>\<open>flag_diffs[..., 0]\<close> is the validity flag,
  \<^verbatim>\<open>flag_diffs[..., 1:]\<close> the column and row offsets.
\<close>

record flag_diff =
  flag :: int
  col_diff :: int
  row_diff :: int

text \<open>
  The two leading axes of a \<^verbatim>\<open>flag_diffs\<close> tensor given as nested lists; rows of
  different lengths are no tensor. An empty batch has no row to read the second axis from
  and gets 0 there: \<^verbatim>\<open>Encoder1D.forward\<close> fails on an empty batch before that axis is
  used.
\<close>

definition fd_dims :: "flag_diff list list \<Rightarrow> (nat \<times> nat) option" where
  "fd_dims fd =
     (case fd of
        [] \<Rightarrow> Some (0, 0)
      | r # rs \<Rightarrow>
          if list_all (\<lambda>q. length q = length r) rs then Some (length fd, length r)
          else None)"

text \<open>
  Modelled from the spec: the class \<^verbatim>\<open>PointEmbed\<close> of \<^verbatim>\<open>src.vae.modules\<close> is not among the
  sources. The spec has it map raw coordinates to a continuous embedding; the encoder
  hands it a list of 3-vectors and reads back one vector of width \<^verbatim>\<open>dim\<close> per point.
\<close>

definition PointEmbed_shape :: "nat \<Rightarrow> shape \<Rightarrow> error + shape" where
  "PointEmbed_shape width s =
     (case s of
        [n, d] \<Rightarrow> if d = 3 then Inr [n, width] else Inl ShapeError
      | _ \<Rightarrow> Inl ShapeError)"

text \<open>
  Modelled from the spec: the attention layers come from \<^verbatim>\<open>AttentionLayerFactory\<close> of
  \<^verbatim>\<open>src.vae.modules\<close>, not among the sources. The spec describes generic self-attention
  and cross-attention blocks: the output has the shape of the queries, queries and context
  have the attention width and the same batch size, and a context mask has one entry per
  context position. Anything else is taken to fail.
\<close>

definition cross_attn_shape :: "nat \<Rightarrow> shape \<Rightarrow> shape \<Rightarrow> shape option \<Rightarrow> error + shape" where
  "cross_attn_shape width x context context_mask =
     (case (x, context) of
        ([b, n, dx], [cb, cn, cd]) \<Rightarrow>
          if dx = width \<and> cd = width \<and> cb = b
             \<and> (case context_mask of None \<Rightarrow> True | Some mk \<Rightarrow> mk = [cb, cn])
          then Inr x else Inl ShapeError
      | _ \<Rightarrow> Inl ShapeError)"

definition self_attn_shape :: "nat \<Rightarrow> shape \<Rightarrow> error + shape" where
  "self_attn_shape width x =
     (case x of
        [b, n, dx] \<Rightarrow> if dx = width then Inr x else Inl ShapeError
      | _ \<Rightarrow> Inl ShapeError)"

text \<open>\<^verbatim>\<open>pack(tensors, 'b nl *')\<close> on tensors of three axes: the first two axes agree.\<close>

definition pack_last :: "shape list \<Rightarrow> error + shape" where
  "pack_last ss =
     (case ss of
        [] \<Rightarrow> Inl ShapeError
      | s # rest \<Rightarrow>
          if list_all (\<lambda>t. length t = 3 \<and> take 2 t = take 2 s) ss
          then Inr (take 2 s @ [sum_list (map last ss)])
          else Inl ShapeError)"

text \<open>
  \<^verbatim>\<open>Encoder1D.forward(xs, flag_diffs)\<close>. The floating-point input is followed by its
  shape; the integer input is given by its entries, since the two embedding tables reject
  an index outside them. The steps and their order are those of the source:
  the two \<^verbatim>\<open>rearrange\<close> calls around the point embedder (einops divides by the product
  \<^verbatim>\<open>b * nlv\<close> of the given axes to find \<^verbatim>\<open>nl\<close>), the offset lookups, the latent
  embedding, \<^verbatim>\<open>pack\<close>, the projection to the attention width, the addition of
  \<^verbatim>\<open>self.pos_emb\<close> of shape \<^verbatim>\<open>(max_curves_num, attn_dim)\<close>, cross-attention of the learnable
  queries under the context mask, and the output projection.
\<close>

definition Encoder1D_forward :: "encoder1d \<Rightarrow> shape \<Rightarrow> flag_diff list list \<Rightarrow> error + shape" where
  "Encoder1D_forward e xs flag_diffs =
     (case xs of
        [bs, nl, c] \<Rightarrow>
          (let w_coords = slice_len 0 6 c
           in if w_coords mod 2 \<noteq> 0 then Inl ShapeError
              else
                bindE (PointEmbed_shape (enc_coor_embed_dim e * 3) [bs * nl * 2, w_coords div 2])
                  (\<lambda>pe.
                if bs * 2 = 0 then Inl ZeroDivisionError
                else if hd pe mod (bs * 2) \<noteq> 0 then Inl ShapeError
                else
                  (let line_coor_embed = [bs, hd pe div (bs * 2), 2 * last pe]
                   in (case fd_dims flag_diffs of
                        None \<Rightarrow> Inl ShapeError
                      | Some (fb, fnl) \<Rightarrow>
                bindE (embedding_shape (enc_max_col_diff e) (enc_col_diff_embed_dim e)
                         (map col_diff (concat flag_diffs)) [fb, fnl]) (\<lambda>col_diff_embed.
                bindE (embedding_shape (enc_max_row_diff e) (enc_row_diff_embed_dim e)
                         (map row_diff (concat flag_diffs)) [fb, fnl]) (\<lambda>row_diff_embed.
                bindE (linear_shape (enc_curve_latent_channels e) (enc_curve_latent_embed_dim e)
                         [bs, nl, slice_len 6 c c]) (\<lambda>curve_latent_embed.
                bindE (pack_last [line_coor_embed, col_diff_embed, row_diff_embed,
                                  curve_latent_embed]) (\<lambda>wire_embed.
                bindE (linear_shape
                         (enc_coor_embed_dim e * 6 + enc_col_diff_embed_dim e
                            + enc_row_diff_embed_dim e + enc_curve_latent_embed_dim e)
                         (enc_attn_dim e) wire_embed) (\<lambda>wire_embed.
                bindE (broadcast [enc_max_curves_num e, enc_attn_dim e] wire_embed)
                  (\<lambda>wire_embed.
                  (let enc_learnable_query =
                         [hd wire_embed, enc_wireframe_latent_num e, enc_attn_dim e];
                       context_padding_mask = [fb, fnl * 1]
                   in bindE (cross_attn_shape (enc_attn_dim e) enc_learnable_query wire_embed
                               (Some context_padding_mask)) (\<lambda>wireframe_latent_embed.
                      linear_shape (enc_attn_dim e) (enc_out_channels e)
                        wireframe_latent_embed))))))))))))
      | _ \<Rightarrow> Inl ShapeError)"

text \<open>\<^verbatim>\<open>rearrange(t, 'b n d -> b d n')\<close>, also used for \<^verbatim>\<open>'b d n -> b n d'\<close>.\<close>

definition swap_last_two :: "shape \<Rightarrow> error + shape" where
  "swap_last_two s = (case s of [b, n, d] \<Rightarrow> Inr [b, d, n] | _ \<Rightarrow> Inl ShapeError)"

text \<open>
  \<^verbatim>\<open>DiagonalGaussianDistribution(moments)\<close> of the diffusers library, on shapes: mean and
  log-variance are the two chunks of \<^verbatim>\<open>torch.chunk(moments, 2, dim=1)\<close>. An axis of size 1
  gives one chunk only and the unpacking fails.
\<close>

definition DiagonalGaussianDistribution_shape :: "shape \<Rightarrow> error + (shape \<times> shape)" where
  "DiagonalGaussianDistribution_shape s =
     (case s of
        b # c # rest \<Rightarrow>
          if c = 1 then Inl ShapeError
          else Inr (b # ((c + 1) div 2) # rest, b # (c - (c + 1) div 2) # rest)
      | _ \<Rightarrow> Inl IndexError)"

text \<open>
  \<^verbatim>\<open>AutoencoderKLWireframe.encode(xs, flag_diffs)\<close>: the shapes of the posterior's mean and
  log-variance. \<^verbatim>\<open>self.quant_proj\<close> is \<^verbatim>\<open>nn.Linear(2 * latent_channels, 2 * latent_channels)\<close>.
\<close>

definition encode :: "wireframe_model \<Rightarrow> shape \<Rightarrow> flag_diff list list \<Rightarrow> error + (shape \<times> shape)" where
  "encode m xs flag_diffs =
     bindE (Encoder1D_forward (m_encoder m) xs flag_diffs) (\<lambda>h.
     bindE (linear_shape (2 * latent_channels (m_config m)) (2 * latent_channels (m_config m)) h)
       (\<lambda>moments.
     bindE (swap_last_two moments) (\<lambda>moments.
     DiagonalGaussianDistribution_shape moments)))"

text \<open>
  \<^verbatim>\<open>Decoder1D.forward(zs)\<close>: \<^verbatim>\<open>self.pos_emb\<close> has shape
  \<^verbatim>\<open>(wireframe_latent_num, attn_dim)\<close> for the decoder's own \<^verbatim>\<open>wireframe_latent_num\<close>, and
  \<^verbatim>\<open>self.dec_learnable_query\<close> has shape \<^verbatim>\<open>(1 + max_curves_num, attn_dim)\<close>.
\<close>

definition Decoder1D_forward :: "decoder1d \<Rightarrow> shape \<Rightarrow> error + shape" where
  "Decoder1D_forward d zs =
     (case zs of
        [bs, n, c] \<Rightarrow>
          bindE (linear_shape (dec_in_channels d) (dec_attn_dim d) zs) (\<lambda>wireframe_latent.
          bindE (if dec_use_latent_pos_emb d
                 then broadcast [dec_wireframe_latent_num d, dec_attn_dim d] wireframe_latent
                 else Inr wireframe_latent) (\<lambda>wireframe_latent.
          bindE (self_attn_shape (dec_attn_dim d) wireframe_latent) (\<lambda>wireframe_latent.
            (let query_embed = [bs, 1 + dec_max_curves_num d, dec_attn_dim d]
             in bindE (cross_attn_shape (dec_attn_dim d) query_embed wireframe_latent None)
                  (\<lambda>query_embed.
                linear_shape (dec_attn_dim d) (dec_attn_dim d) query_embed)))))
      | _ \<Rightarrow> Inl ShapeError)"

text \<open>
  \<^verbatim>\<open>_decode\<close> and \<^verbatim>\<open>decode\<close>, the same code in \<^verbatim>\<open>AutoencoderKLWireframe\<close> and in
  \<^verbatim>\<open>AutoencoderKLWireframeFastDecode\<close>; \<open>lc\<close> is the width of \<^verbatim>\<open>self.post_quant_proj\<close>.
  \<^verbatim>\<open>decode\<close> calls \<^verbatim>\<open>_decode\<close> with \<^verbatim>\<open>return_dict = True\<close> and wraps its \<^verbatim>\<open>sample\<close> again.
\<close>

datatype 'a decoder_output = DecoderOutput 'a | DecoderTuple 'a

fun sample :: "'a decoder_output \<Rightarrow> error + 'a" where
  "sample (DecoderOutput t) = Inr t"
| "sample (DecoderTuple t) = Inl AttributeError"

definition decode_inner :: "nat \<Rightarrow> decoder1d \<Rightarrow> shape \<Rightarrow> bool \<Rightarrow> error + shape decoder_output" where
  "decode_inner lc d zs return_dict =
     bindE (swap_last_two zs) (\<lambda>zs.
     bindE (linear_shape lc lc zs) (\<lambda>zs.
     bindE (Decoder1D_forward d zs) (\<lambda>dec.
       if \<not> return_dict then Inr (DecoderTuple dec) else Inr (DecoderOutput dec))))"

definition decode_outer :: "nat \<Rightarrow> decoder1d \<Rightarrow> shape \<Rightarrow> bool \<Rightarrow> error + shape decoder_output" where
  "decode_outer lc d z return_dict =
     bindE (bindE (decode_inner lc d z True) sample) (\<lambda>decoded.
       if \<not> return_dict then Inr (DecoderTuple decoded) else Inr (DecoderOutput decoded))"

definition decode :: "wireframe_model \<Rightarrow> shape \<Rightarrow> bool \<Rightarrow> error + shape decoder_output" where
  "decode m z return_dict =
     decode_outer (latent_channels (m_config m)) (m_decoder m) z return_dict"

section \<open>The decode-only model\<close>

text \<open>What \<^verbatim>\<open>AutoencoderKLWireframeFastDecode.__init__\<close> builds from its arguments.\<close>

record fast_decode_model =
  fd_latent_channels :: nat
  fd_max_col_diff :: nat
  fd_max_row_diff :: nat
  fd_max_curves_num :: nat
  fd_use_mlp_predict :: bool
  fd_decoder :: decoder1d
  fd_heads :: heads

definition AutoencoderKLWireframeFastDecode_init :: "config \<Rightarrow> fast_decode_model" where
  "AutoencoderKLWireframeFastDecode_init c =
     \<lparr> fd_latent_channels = latent_channels c,
       fd_max_col_diff = max_col_diff c,
       fd_max_row_diff = max_row_diff c,
       fd_max_curves_num = max_curves_num c,
       fd_use_mlp_predict = use_mlp_predict c,
       fd_decoder = Decoder1D_init (latent_channels c) (attn_dim c) (max_curves_num c)
                      (use_latent_pos_emb c),
       fd_heads = init_heads (use_mlp_predict c) (attn_dim c) (max_curves_num c)
                    (max_col_diff c) (max_row_diff c) \<rparr>"

text \<open>
  What \<^verbatim>\<open>AutoencoderKLWireframeFastDecode.forward\<close> returns: the one-element tuple
  \<^verbatim>\<open>(dec,)\<close> or the dictionary \<^verbatim>\<open>preds\<close>, its keys in the order of the source.
\<close>

datatype fast_decode_result = RawTuple shape | PredsDict "(string \<times> shape) list"

definition fast_decode_predict :: "fast_decode_model \<Rightarrow> shape \<Rightarrow> error + pred_shapes" where
  "fast_decode_predict m dec =
     (if fd_use_mlp_predict m then mlp_predict_shape (fd_heads m) dec
      else linear_predict_shape (fd_max_col_diff m) (fd_max_row_diff m) (fd_heads m) dec)"

definition fast_decode_forward :: "fast_decode_model \<Rightarrow> shape \<Rightarrow> bool \<Rightarrow> error + fast_decode_result" where
  "fast_decode_forward m zs return_dict =
     bindE (swap_last_two zs) (\<lambda>zs.
     bindE (bindE (decode_outer (fd_latent_channels m) (fd_decoder m) zs True) sample) (\<lambda>dec.
     bindE (fast_decode_predict m dec)
       (\<lambda>(pred_cls_logits, pred_segments, pred_diffs_logits, pred_curve_latent).
       (let preds = [(''cls'', pred_cls_logits), (''segments'', pred_segments),
                     (''diffs'', pred_diffs_logits), (''curve_latent'', pred_curve_latent)]
        in if \<not> return_dict then Inr (RawTuple dec) else Inr (PredsDict preds)))))"

section \<open>The loss, on values\<close>

text \<open>
  A tensor of two or three axes is a list of rows, or a list of lists of rows. A tensor
  with no element carries no width in this form; where the source reads the width of an
  axis, the model reads it from the rows that exist.
\<close>

type_synonym 'a t2 = "'a list list"
type_synonym 'a t3 = "'a list list list"

definition rect2 :: "nat \<Rightarrow> nat \<Rightarrow> 'a t2 \<Rightarrow> bool" where
  "rect2 b n t = (length t = b \<and> list_all (\<lambda>r. length r = n) t)"

definition rect3 :: "nat \<Rightarrow> nat \<Rightarrow> nat \<Rightarrow> 'a t3 \<Rightarrow> bool" where
  "rect3 b n c t = (length t = b \<and> list_all (rect2 n c) t)"

text \<open>The prediction bundle: the values under \<^verbatim>\<open>cls\<close>, \<^verbatim>\<open>segments\<close>, \<^verbatim>\<open>diffs\<close>, \<^verbatim>\<open>curve_latent\<close>.\<close>

record preds =
  p_cls :: "fl t2"
  p_segments :: "fl t3"
  p_diffs :: "fl t3"
  p_curve_latent :: "fl t3"

text \<open>
  The posterior that \<^verbatim>\<open>encode\<close> returns, an object of the diffusers library: the tensors
  it exposes as \<^verbatim>\<open>mean\<close>, \<^verbatim>\<open>logvar\<close>, \<^verbatim>\<open>var\<close> and \<^verbatim>\<open>std\<close>.
\<close>

record posterior =
  post_mean :: "fl t3"
  post_logvar :: "fl t3"
  post_var :: "fl t3"
  post_std :: "fl t3"

text \<open>
  Modelled from the spec: the functions \<^verbatim>\<open>ce_loss\<close> and \<^verbatim>\<open>FocalLoss\<close> of
  \<^verbatim>\<open>src.vae.modules\<close> are not among the sources. The spec describes a cross-entropy with
  label smoothing and an optional per-class weight vector. Such a loss is taken as a
  parameter that gives, for the number of classes, the smoothing factor, the optional
  class weights, the logits of one item and its target class, the loss of that item.
  \<^verbatim>\<open>reduction='none'\<close> returns the losses of all items, \<^verbatim>\<open>reduction='mean'\<close> (used without
  class weights only) their mean.
\<close>

type_synonym item_loss = "nat \<Rightarrow> fl \<Rightarrow> fl list option \<Rightarrow> fl list \<Rightarrow> int \<Rightarrow> fl"

text \<open>
  The parts of a forward pass that are learned or come from collaborators, as functions on
  values: \<^verbatim>\<open>self.encode\<close> up to the posterior, \<^verbatim>\<open>posterior.sample(generator)\<close>,
  \<^verbatim>\<open>self.decode(z).sample\<close>, the two prediction strategies and the two classification
  losses. Their shapes are the subject of the sections above.
\<close>

record networks =
  net_encode :: "fl t3 \<Rightarrow> flag_diff t2 \<Rightarrow> error + posterior"
  net_sample :: "posterior \<Rightarrow> fl t3"
  net_decode :: "fl t3 \<Rightarrow> error + fl t3"
  net_mlp_predict :: "fl t3 \<Rightarrow> error + preds"
  net_linear_predict :: "fl t3 \<Rightarrow> error + preds"
  net_ce_loss :: item_loss
  net_focal_loss :: item_loss

text \<open>\<^verbatim>\<open>self.ce_loss\<close>, chosen by \<^verbatim>\<open>__init__\<close>.\<close>

definition ce_loss :: "wireframe_model \<Rightarrow> networks \<Rightarrow> item_loss" where
  "ce_loss m nets = (if use_focal_loss (m_config m) then net_focal_loss nets else net_ce_loss nets)"

text \<open>\<^verbatim>\<open>self.mse_loss_fn\<close>, that is \<^verbatim>\<open>MSELoss(reduction='none')\<close>, on one element.\<close>

definition mse_loss_fn :: "fl \<Rightarrow> fl \<Rightarrow> fl" where
  "mse_loss_fn p g = (let d = fsub p g in fmul d d)"

text \<open>
  Boolean-mask indexing \<^verbatim>\<open>t[mask]\<close>: the elements under a true mask entry, in row-major
  order.
\<close>

definition select1 :: "bool list \<Rightarrow> 'a list \<Rightarrow> 'a list" where
  "select1 ms xs = map snd (filter fst (zip ms xs))"

definition select2 :: "bool t2 \<Rightarrow> 'a t2 \<Rightarrow> 'a list" where
  "select2 ms xs = concat (map2 select1 ms xs)"

definition select3 :: "bool t3 \<Rightarrow> 'a t3 \<Rightarrow> 'a list" where
  "select3 ms xs = concat (map2 select2 ms xs)"

text \<open>\<^verbatim>\<open>repeat(xs_mask, 'b nl -> b nl r', r = r)\<close>.\<close>

definition repeat_last :: "nat \<Rightarrow> 'a t2 \<Rightarrow> 'a t3" where
  "repeat_last r t = map (map (replicate r)) t"

text \<open>The width of the first row of a tensor of three axes, if it has a row.\<close>

definition row_width :: "'a t3 \<Rightarrow> nat option" where
  "row_width t = (case concat t of [] \<Rightarrow> None | r # _ \<Rightarrow> Some (length r))"

text \<open>
  \<^verbatim>\<open>cls = gt_flag_diffs[..., 0].sum(dim=-1) - 1\<close>: the target of the classification
  cross-entropy, one class per batch item.
\<close>

definition cls_target :: "flag_diff t2 \<Rightarrow> int list" where
  "cls_target gt_flag_diffs = map (\<lambda>item. sum_list (map flag item) - 1) gt_flag_diffs"

text \<open>
  The shapes under which every operation of \<^verbatim>\<open>loss\<close> is defined, for the batch size
  \<^verbatim>\<open>bs = pred_cls_logits.shape[0]\<close>: the elementwise products and squared errors and the
  mask indexing need equal shapes, \<^verbatim>\<open>self.col_weights\<close> has \<^verbatim>\<open>max_curves_num\<close> entries,
  the two repeated masks are 6 and 12 wide, the spread half of \<^verbatim>\<open>gt_curve_latent\<close>
  multiplies its mean half, and \<^verbatim>\<open>split\<close> needs at least \<^verbatim>\<open>max_col_diff\<close> logits.
  PyTorch would also stretch an axis of size 1 against a longer one; such inputs are
  outside the declared shapes and are rejected here like every other mismatch.
\<close>

definition loss_shapes_ok ::
  "wireframe_model \<Rightarrow> fl t3 \<Rightarrow> flag_diff t2 \<Rightarrow> fl t3 \<Rightarrow> bool t2 \<Rightarrow> preds \<Rightarrow> bool" where
  "loss_shapes_ok m gt_segment_coords gt_flag_diffs gt_curve_latent xs_mask ps =
     (let bs = length (p_cls ps);
          n = max_curves_num (m_config m)
      in rect2 bs n gt_flag_diffs
         \<and> rect2 bs n xs_mask
         \<and> length (m_col_weights m) = n
         \<and> rect3 bs n 6 (p_segments ps)
         \<and> rect3 bs n 6 gt_segment_coords
         \<and> (case row_width (p_diffs ps) of
               None \<Rightarrow> rect3 bs n 0 (p_diffs ps)
             | Some c \<Rightarrow> max_col_diff (m_config m) \<le> c \<and> rect3 bs n c (p_diffs ps))
         \<and> rect3 bs n 12 (p_curve_latent ps)
         \<and> rect3 bs n 24 gt_curve_latent)"

text \<open>
  \<^verbatim>\<open>AutoencoderKLWireframe.loss\<close>. The source moves the class axis of
  \<^verbatim>\<open>pred_diffs_logits\<close> to the second place and splits it there into the first
  \<^verbatim>\<open>max_col_diff\<close> logits and the others; on the layout kept here, with the classes last,
  that is \<open>take\<close> and \<open>drop\<close> on the logits of each position. The result is the tuple
  \<^verbatim>\<open>(cls_ce_loss, segment_mse_loss, col_diff_ce_loss, row_diff_ce_loss, curve_latent_loss)\<close>.
\<close>

definition loss ::
  "wireframe_model \<Rightarrow> networks \<Rightarrow> fl t3 \<Rightarrow> flag_diff t2 \<Rightarrow> fl t3 \<Rightarrow> bool t2 \<Rightarrow> preds
     \<Rightarrow> error + (fl \<times> fl \<times> fl \<times> fl \<times> fl)" where
  "loss m nets gt_segment_coords gt_flag_diffs gt_curve_latent xs_mask ps =
     (if \<not> loss_shapes_ok m gt_segment_coords gt_flag_diffs gt_curve_latent xs_mask ps
      then Inl ShapeError
      else
        (let c = m_config m;
             bs = length (p_cls ps);
             cls = cls_target gt_flag_diffs;
             cls_ce_loss =
               fmean (map2 (ce_loss m nets (max_curves_num c) (label_smoothing c) None)
                        (p_cls ps) cls);
             segment_mse_loss =
               fmean (select3 (repeat_last 6 xs_mask)
                        (map2 (map2 (map2 mse_loss_fn)) (p_segments ps) gt_segment_coords));
             col_diff_ce_loss =
               map2 (map2 (\<lambda>logits q.
                       ce_loss m nets (max_col_diff c) (label_smoothing c)
                         (Some (m_col_diff_class_weights m))
                         (take (max_col_diff c) logits) (col_diff q)))
                 (p_diffs ps) gt_flag_diffs;
             row_diff_ce_loss =
               map2 (map2 (\<lambda>logits q.
                       ce_loss m nets (max_row_diff c) (label_smoothing c)
                         (Some (m_row_diff_class_weights m))
                         (drop (max_col_diff c) logits) (row_diff q)))
                 (p_diffs ps) gt_flag_diffs;
             col_weights = replicate bs (m_col_weights m);
             col_diff_ce_loss =
               fmean (select2 xs_mask (map2 (map2 fmul) col_diff_ce_loss col_weights));
             row_diff_ce_loss = fmean (select2 xs_mask row_diff_ce_loss);
             gt_curve_latent_std = map (map (\<lambda>v. map (fclamp 0 1) (drop 12 v))) gt_curve_latent;
             mu_weights =
               map (map (map (\<lambda>s. fsub (Fin 1.2) (fmul (Fin 0.5) (flog (fadd s (Fin 1.7183)))))))
                 gt_curve_latent_std;
             curve_latent_loss =
               fmean (select3 (repeat_last 12 xs_mask)
                        (map2 (map2 (map2 fmul)) mu_weights
                           (map2 (map2 (map2 mse_loss_fn)) (p_curve_latent ps)
                              (map (map (take 12)) gt_curve_latent))))
         in Inr (cls_ce_loss, segment_mse_loss, col_diff_ce_loss, row_diff_ce_loss,
                 curve_latent_loss)))"

section \<open>The forward pass, on values\<close>

text \<open>
  What \<^verbatim>\<open>forward\<close> returns: the one-element tuple \<^verbatim>\<open>(preds,)\<close>, the pair of the scalar
  loss and the dictionary \<^verbatim>\<open>all_losses\<close> (its keys in the order of insertion), or
  \<^verbatim>\<open>preds\<close>.
\<close>

datatype forward_result =
    PredsTuple preds
  | LossPair fl "(string \<times> fl) list"
  | PredsOnly preds

definition same_shape3 :: "'a t3 \<Rightarrow> 'b t3 \<Rightarrow> bool" where
  "same_shape3 a b =
     list_all2 (\<lambda>x y. list_all2 (\<lambda>u v. length u = length v) x y) a b"

text \<open>
  \<^verbatim>\<open>0.5 * torch.sum(torch.pow(posterior.mean, 2) + posterior.var - 1.0 -
  posterior.logvar, dim = [1,2]).mean()\<close>: the sum runs over each batch item, the mean over
  the batch, and the factor multiplies the mean.
\<close>

definition kl_divergence :: "posterior \<Rightarrow> error + fl" where
  "kl_divergence p =
     (if \<not> (same_shape3 (post_mean p) (post_var p) \<and> same_shape3 (post_mean p) (post_logvar p))
      then Inl ShapeError
      else
        Inr (fmul (Fin 0.5)
               (fmean
                  (map (\<lambda>(mu, var, logvar).
                          fsum (concat
                            (map (\<lambda>(mu, var, logvar).
                                    map (\<lambda>(mu, var, logvar).
                                          fsub (fsub (fadd (fmul mu mu) var) (Fin 1)) logvar)
                                      (zip mu (zip var logvar)))
                               (zip mu (zip var logvar)))))
                     (zip (post_mean p) (zip (post_var p) (post_logvar p)))))))"

text \<open>
  \<^verbatim>\<open>flags = flag_diffs[..., 0]; xs_mask = flags > 0.5\<close>: a position is valid when its
  integer flag exceeds 0.5.
\<close>

definition xs_mask_of :: "flag_diff t2 \<Rightarrow> bool t2" where
  "xs_mask_of flag_diffs = map (map (\<lambda>q. (0.5 :: real) < of_int (flag q))) flag_diffs"

text \<open>
  \<^verbatim>\<open>AutoencoderKLWireframe.forward(xs, flag_diffs, sample_posterior, return_dict,
  return_loss)\<close>; the generator is part of \<^verbatim>\<open>net_sample\<close>.
\<close>

definition forward ::
  "wireframe_model \<Rightarrow> networks \<Rightarrow> fl t3 \<Rightarrow> flag_diff t2 \<Rightarrow> bool \<Rightarrow> bool \<Rightarrow> bool
     \<Rightarrow> error + forward_result" where
  "forward m nets xs flag_diffs sample_posterior return_dict return_loss =
     (let xs_mask = xs_mask_of flag_diffs
      in bindE (net_encode nets (map (map (take 18)) xs) flag_diffs) (\<lambda>posterior.
         (let segment_coords = map (map (take 6)) xs;
              z = (if sample_posterior then net_sample nets posterior else post_mean posterior)
          in bindE (net_decode nets z) (\<lambda>dec.
             bindE (if use_mlp_predict (m_config m) then net_mlp_predict nets dec
                    else net_linear_predict nets dec) (\<lambda>ps.
               if \<not> return_dict then Inr (PredsTuple ps)
               else if return_loss then
                 bindE (kl_divergence posterior) (\<lambda>kl_loss.
                 (let kl_loss = (if \<not> sample_posterior then fmul (Fin 0) kl_loss else kl_loss)
                  in bindE (loss m nets segment_coords flag_diffs (map (map (drop 6)) xs)
                              xs_mask ps)
                       (\<lambda>(cls_ce_loss, segment_mse_loss, col_diff_ce_loss, row_diff_ce_loss,
                          curve_latent_loss).
                       (let c = m_config m;
                            all_losses =
                              [(''cls_ce_loss'', cls_ce_loss),
                               (''segment_mse_loss'', segment_mse_loss),
                               (''col_diff_ce_loss'', col_diff_ce_loss),
                               (''row_diff_ce_loss'', row_diff_ce_loss),
                               (''curve_latent_loss'', curve_latent_loss),
                               (''kl_loss'', kl_loss)];
                            new_kl_loss_weight = kl_loss_weight c;
                            total =
                              fadd (fadd (fadd (fadd (fadd
                                (fmul (cls_loss_weight c) cls_ce_loss)
                                (fmul (segment_loss_weight c) segment_mse_loss))
                                (fmul (col_diff_loss_weight c) col_diff_ce_loss))
                                (fmul (row_diff_loss_weight c) row_diff_ce_loss))
                                (fmul (curve_latent_loss_weight c) curve_latent_loss))
                                (fmul new_kl_loss_weight kl_loss);
                            all_losses =
                              all_losses
                                @ [(''mu'', fmean (map fabs (concat (concat (post_mean posterior)))))];
                            all_losses =
                              all_losses
                                @ [(''std'', fmean (concat (concat (post_std posterior))))]
                        in Inr (LossPair total all_losses)))))
               else Inr (PredsOnly ps))))))"

section \<open>The module across method calls\<close>





section \<open>Zeroing the ground truth of invalid positions\<close>

text \<open>
  Not part of the program: the replacement that the masking law speaks of. The ground-truth
  values of every position whose mask entry is false (or missing) become zeros; the flags
  stay, the offsets of an invalid position become 0.
\<close>

definition zero_row :: "fl list \<Rightarrow> fl list" where
  "zero_row v = map (\<lambda>x. Fin 0) v"

fun zero_invalid1 :: "bool list \<Rightarrow> fl t2 \<Rightarrow> fl t2" where
  "zero_invalid1 ms [] = []"
| "zero_invalid1 [] (x # xs) = zero_row x # zero_invalid1 [] xs"
| "zero_invalid1 (m # ms) (x # xs) = (if m then x else zero_row x) # zero_invalid1 ms xs"

fun zero_invalid :: "bool t2 \<Rightarrow> fl t3 \<Rightarrow> fl t3" where
  "zero_invalid ms [] = []"
| "zero_invalid [] (x # xs) = zero_invalid1 [] x # zero_invalid [] xs"
| "zero_invalid (m # ms) (x # xs) = zero_invalid1 m x # zero_invalid ms xs"

definition zero_invalid_offsets :: "flag_diff t2 \<Rightarrow> flag_diff t2" where
  "zero_invalid_offsets flag_diffs =
     map (map (\<lambda>q. if (0.5 :: real) < of_int (flag q) then q
                    else q\<lparr>col_diff := 0, row_diff := 0\<rparr>)) flag_diffs"

section \<open>Concrete inputs\<close>

text \<open>
  Two small scenarios on which the properties below are exercised; neither is part of the
  program. The first has one batch item with a single segment (\<^verbatim>\<open>max_curves_num = 1\<close>,
  one latent of one channel, attention width 2, one column and one row offset class, the
  MLP heads) and runs through \<^verbatim>\<open>forward\<close>. Its classification losses are 2 without and
  0 with class weights, its posterior has mean 1, variance 1 and log-variance 0.
\<close>

definition tiny_config :: config where
  "tiny_config =
     default_config\<lparr>latent_channels := 1, max_col_diff := 1, max_row_diff := 1,
       attn_dim := 2, num_heads := 1, max_curves_num := 1, wireframe_latent_num := 1,
       use_mlp_predict := True\<rparr>"

definition tiny_preds :: preds where
  "tiny_preds =
     \<lparr> p_cls = [[Fin 0]],
       p_segments = [[[Fin 1, Fin 1, Fin 1, Fin 1, Fin 1, Fin 1]]],
       p_diffs = [[[Fin 0, Fin 0]]],
       p_curve_latent =
         [[[Fin 0, Fin 0, Fin 0, Fin 0, Fin 0, Fin 0, Fin 0, Fin 0, Fin 0, Fin 0,
            Fin 0, Fin 0]]] \<rparr>"

definition tiny_networks :: networks where
  "tiny_networks =
     \<lparr> net_encode = (\<lambda>xs flag_diffs.
         Inr \<lparr>post_mean = [[[Fin 1]]], post_logvar = [[[Fin 0]]],
              post_var = [[[Fin 1]]], post_std = [[[Fin 1]]]\<rparr>),
       net_sample = (\<lambda>p. [[[Fin 2]]]),
       net_decode = (\<lambda>z. Inr [[[Fin 0, Fin 0], [Fin 0, Fin 0]]]),
       net_mlp_predict = (\<lambda>dec. Inr tiny_preds),
       net_linear_predict = (\<lambda>dec. Inl AttributeError),
       net_ce_loss = (\<lambda>num_classes smoothing weight logits target.
         case weight of None \<Rightarrow> Fin 2 | Some w \<Rightarrow> Fin 0),
       net_focal_loss = (\<lambda>num_classes smoothing weight logits target. Fin 0) \<rparr>"

definition tiny_xs :: "fl t3" where
  "tiny_xs =
     [[[Fin 0, Fin 0, Fin 0, Fin 0, Fin 0, Fin 0, Fin 0, Fin 0, Fin 0, Fin 0, Fin 0,
        Fin 0, Fin 0, Fin 0, Fin 0, Fin 0, Fin 0, Fin 0, Fin 0, Fin 0, Fin 0, Fin 0, Fin 0,
        Fin 0, Fin 0, Fin 0, Fin 0, Fin 0, Fin 0, Fin 0]]]"

definition tiny_flag_diffs :: "flag_diff t2" where
  "tiny_flag_diffs = [[\<lparr>flag = 1, col_diff = 0, row_diff = 0\<rparr>]]"

text \<open>
  The same scenario after a NaN has entered the input: every tensor the networks return
  holds NaN.
\<close>

definition nan_preds :: preds where
  "nan_preds =
     \<lparr> p_cls = [[NaN]],
       p_segments = [[[NaN, NaN, NaN, NaN, NaN, NaN]]],
       p_diffs = [[[NaN, NaN]]],
       p_curve_latent =
         [[[NaN, NaN, NaN, NaN, NaN, NaN, NaN, NaN, NaN, NaN, NaN, NaN]]] \<rparr>"

definition nan_networks :: networks where
  "nan_networks =
     \<lparr> net_encode = (\<lambda>xs flag_diffs.
         Inr \<lparr>post_mean = [[[NaN]]], post_logvar = [[[NaN]]],
              post_var = [[[NaN]]], post_std = [[[NaN]]]\<rparr>),
       net_sample = (\<lambda>p. [[[NaN]]]),
       net_decode = (\<lambda>z. Inr [[[NaN, NaN], [NaN, NaN]]]),
       net_mlp_predict = (\<lambda>dec. Inr nan_preds),
       net_linear_predict = (\<lambda>dec. Inl AttributeError),
       net_ce_loss = (\<lambda>num_classes smoothing weight logits target. NaN),
       net_focal_loss = (\<lambda>num_classes smoothing weight logits target. NaN) \<rparr>"

definition nan_xs :: "fl t3" where
  "nan_xs =
     [[[NaN, NaN, NaN, NaN, NaN, NaN, NaN, NaN, NaN, NaN, NaN, NaN, NaN, NaN, NaN, NaN,
        NaN, NaN, NaN, NaN, NaN, NaN, NaN, NaN, NaN, NaN, NaN, NaN, NaN, NaN]]]"

text \<open>
  The networks of the first scenario with a classification loss that returns the target it
  is given.
\<close>

definition echo_networks :: networks where
  "echo_networks =
     tiny_networks\<lparr>net_ce_loss :=
       (\<lambda>num_classes smoothing weight logits target. Fin (of_int target))\<rparr>"

text \<open>
  The second is the scenario of the specification: two batch items, \<^verbatim>\<open>max_curves_num = 4\<close>,
  flags \<open>[1, 1, 0, 0]\<close> and \<open>[1, 1, 1, 0]\<close>. Every predicted coordinate is 3 and every
  ground-truth coordinate of a valid position 1; the padded positions hold the
  coordinates 7, the offsets 1 and 2 and the latent values 9.
\<close>

definition spec_config :: config where
  "spec_config =
     default_config\<lparr>latent_channels := 4, max_col_diff := 2, max_row_diff := 3,
       max_curves_num := 4, wireframe_latent_num := 8, use_mlp_predict := True\<rparr>"

definition spec_flag_diffs :: "flag_diff t2" where
  "spec_flag_diffs =
     [[\<lparr>flag = 1, col_diff = 0, row_diff = 0\<rparr>,
       \<lparr>flag = 1, col_diff = 0, row_diff = 0\<rparr>,
       \<lparr>flag = 0, col_diff = 1, row_diff = 2\<rparr>,
       \<lparr>flag = 0, col_diff = 1, row_diff = 2\<rparr>],
      [\<lparr>flag = 1, col_diff = 0, row_diff = 0\<rparr>,
       \<lparr>flag = 1, col_diff = 0, row_diff = 0\<rparr>,
       \<lparr>flag = 1, col_diff = 0, row_diff = 0\<rparr>,
       \<lparr>flag = 0, col_diff = 1, row_diff = 2\<rparr>]]"

text \<open>The same ground truth with the padded positions replaced by zeros.\<close>

definition spec_flag_diffs_zeroed :: "flag_diff t2" where
  "spec_flag_diffs_zeroed =
     [[\<lparr>flag = 1, col_diff = 0, row_diff = 0\<rparr>,
       \<lparr>flag = 1, col_diff = 0, row_diff = 0\<rparr>,
       \<lparr>flag = 0, col_diff = 0, row_diff = 0\<rparr>,
       \<lparr>flag = 0, col_diff = 0, row_diff = 0\<rparr>],
      [\<lparr>flag = 1, col_diff = 0, row_diff = 0\<rparr>,
       \<lparr>flag = 1, col_diff = 0, row_diff = 0\<rparr>,
       \<lparr>flag = 1, col_diff = 0, row_diff = 0\<rparr>,
       \<lparr>flag = 0, col_diff = 0, row_diff = 0\<rparr>]]"

definition spec_gt_segment_coords :: "fl t3" where
  "spec_gt_segment_coords =
     [[[Fin 1, Fin 1, Fin 1, Fin 1, Fin 1, Fin 1],
       [Fin 1, Fin 1, Fin 1, Fin 1, Fin 1, Fin 1],
       [Fin 7, Fin 7, Fin 7, Fin 7, Fin 7, Fin 7],
       [Fin 7, Fin 7, Fin 7, Fin 7, Fin 7, Fin 7]],
      [[Fin 1, Fin 1, Fin 1, Fin 1, Fin 1, Fin 1],
       [Fin 1, Fin 1, Fin 1, Fin 1, Fin 1, Fin 1],
       [Fin 1, Fin 1, Fin 1, Fin 1, Fin 1, Fin 1],
       [Fin 7, Fin 7, Fin 7, Fin 7, Fin 7, Fin 7]]]"

definition spec_gt_curve_latent :: "fl t3" where
  "spec_gt_curve_latent =
     [[[Fin 0, Fin 0, Fin 0, Fin 0, Fin 0, Fin 0, Fin 0, Fin 0, Fin 0, Fin 0, Fin 0,
        Fin 0, Fin 0, Fin 0, Fin 0, Fin 0, Fin 0, Fin 0, Fin 0, Fin 0, Fin 0, Fin 0, Fin 0,
        Fin 0],
       [Fin 0, Fin 0, Fin 0, Fin 0, Fin 0, Fin 0, Fin 0, Fin 0, Fin 0, Fin 0, Fin 0,
        Fin 0, Fin 0, Fin 0, Fin 0, Fin 0, Fin 0, Fin 0, Fin 0, Fin 0, Fin 0, Fin 0, Fin 0,
        Fin 0],
       [Fin 9, Fin 9, Fin 9, Fin 9, Fin 9, Fin 9, Fin 9, Fin 9, Fin 9, Fin 9, Fin 9,
        Fin 9, Fin 9, Fin 9, Fin 9, Fin 9, Fin 9, Fin 9, Fin 9, Fin 9, Fin 9, Fin 9, Fin 9,
        Fin 9],
       [Fin 9, Fin 9, Fin 9, Fin 9, Fin 9, Fin 9, Fin 9, Fin 9, Fin 9, Fin 9, Fin 9,
        Fin 9, Fin 9, Fin 9, Fin 9, Fin 9, Fin 9, Fin 9, Fin 9, Fin 9, Fin 9, Fin 9, Fin 9,
        Fin 9]],
      [[Fin 0, Fin 0, Fin 0, Fin 0, Fin 0, Fin 0, Fin 0, Fin 0, Fin 0, Fin 0, Fin 0,
        Fin 0, Fin 0, Fin 0, Fin 0, Fin 0, Fin 0, Fin 0, Fin 0, Fin 0, Fin 0, Fin 0, Fin 0,
        Fin 0],
       [Fin 0, Fin 0, Fin 0, Fin 0, Fin 0, Fin 0, Fin 0, Fin 0, Fin 0, Fin 0, Fin 0,
        Fin 0, Fin 0, Fin 0, Fin 0, Fin 0, Fin 0, Fin 0, Fin 0, Fin 0, Fin 0, Fin 0, Fin 0,
        Fin 0],
       [Fin 0, Fin 0, Fin 0, Fin 0, Fin 0, Fin 0, Fin 0, Fin 0, Fin 0, Fin 0, Fin 0,
        Fin 0, Fin 0, Fin 0, Fin 0, Fin 0, Fin 0, Fin 0, Fin 0, Fin 0, Fin 0, Fin 0, Fin 0,
        Fin 0],
       [Fin 9, Fin 9, Fin 9, Fin 9, Fin 9, Fin 9, Fin 9, Fin 9, Fin 9, Fin 9, Fin 9,
        Fin 9, Fin 9, Fin 9, Fin 9, Fin 9, Fin 9, Fin 9, Fin 9, Fin 9, Fin 9, Fin 9, Fin 9,
        Fin 9]]]"

definition spec_gt_segment_coords_zeroed :: "fl t3" where
  "spec_gt_segment_coords_zeroed =
     [[[Fin 1, Fin 1, Fin 1, Fin 1, Fin 1, Fin 1],
       [Fin 1, Fin 1, Fin 1, Fin 1, Fin 1, Fin 1],
       [Fin 0, Fin 0, Fin 0, Fin 0, Fin 0, Fin 0],
       [Fin 0, Fin 0, Fin 0, Fin 0, Fin 0, Fin 0]],
      [[Fin 1, Fin 1, Fin 1, Fin 1, Fin 1, Fin 1],
       [Fin 1, Fin 1, Fin 1, Fin 1, Fin 1, Fin 1],
       [Fin 1, Fin 1, Fin 1, Fin 1, Fin 1, Fin 1],
       [Fin 0, Fin 0, Fin 0, Fin 0, Fin 0, Fin 0]]]"

definition spec_gt_curve_latent_zeroed :: "fl t3" where
  "spec_gt_curve_latent_zeroed =
     [[[Fin 0, Fin 0, Fin 0, Fin 0, Fin 0, Fin 0, Fin 0, Fin 0, Fin 0, Fin 0, Fin 0,
        Fin 0, Fin 0, Fin 0, Fin 0, Fin 0, Fin 0, Fin 0, Fin 0, Fin 0, Fin 0, Fin 0, Fin 0,
        Fin 0],
       [Fin 0, Fin 0, Fin 0, Fin 0, Fin 0, Fin 0, Fin 0, Fin 0, Fin 0, Fin 0, Fin 0,
        Fin 0, Fin 0, Fin 0, Fin 0, Fin 0, Fin 0, Fin 0, Fin 0, Fin 0, Fin 0, Fin 0, Fin 0,
        Fin 0],
       [Fin 0, Fin 0, Fin 0, Fin 0, Fin 0, Fin 0, Fin 0, Fin 0, Fin 0, Fin 0, Fin 0,
        Fin 0, Fin 0, Fin 0, Fin 0, Fin 0, Fin 0, Fin 0, Fin 0, Fin 0, Fin 0, Fin 0, Fin 0,
        Fin 0],
       [Fin 0, Fin 0, Fin 0, Fin 0, Fin 0, Fin 0, Fin 0, Fin 0, Fin 0, Fin 0, Fin 0,
        Fin 0, Fin 0, Fin 0, Fin 0, Fin 0, Fin 0, Fin 0, Fin 0, Fin 0, Fin 0, Fin 0, Fin 0,
        Fin 0]],
      [[Fin 0, Fin 0, Fin 0, Fin 0, Fin 0, Fin 0, Fin 0, Fin 0, Fin 0, Fin 0, Fin 0,
        Fin 0, Fin 0, Fin 0, Fin 0, Fin 0, Fin 0, Fin 0, Fin 0, Fin 0, Fin 0, Fin 0, Fin 0,
        Fin 0],
       [Fin 0, Fin 0, Fin 0, Fin 0, Fin 0, Fin 0, Fin 0, Fin 0, Fin 0, Fin 0, Fin 0,
        Fin 0, Fin 0, Fin 0, Fin 0, Fin 0, Fin 0, Fin 0, Fin 0, Fin 0, Fin 0, Fin 0, Fin 0,
        Fin 0],
       [Fin 0, Fin 0, Fin 0, Fin 0, Fin 0, Fin 0, Fin 0, Fin 0, Fin 0, Fin 0, Fin 0,
        Fin 0, Fin 0, Fin 0, Fin 0, Fin 0, Fin 0, Fin 0, Fin 0, Fin 0, Fin 0, Fin 0, Fin 0,
        Fin 0],
       [Fin 0, Fin 0, Fin 0, Fin 0, Fin 0, Fin 0, Fin 0, Fin 0, Fin 0, Fin 0, Fin 0,
        Fin 0, Fin 0, Fin 0, Fin 0, Fin 0, Fin 0, Fin 0, Fin 0, Fin 0, Fin 0, Fin 0, Fin 0,
        Fin 0]]]"

definition spec_preds :: preds where
  "spec_preds =
     \<lparr> p_cls = [[Fin 0, Fin 0, Fin 0, Fin 0],
                [Fin 0, Fin 0, Fin 0, Fin 0]],
       p_segments =
         [[[Fin 3, Fin 3, Fin 3, Fin 3, Fin 3, Fin 3],
           [Fin 3, Fin 3, Fin 3, Fin 3, Fin 3, Fin 3],
           [Fin 3, Fin 3, Fin 3, Fin 3, Fin 3, Fin 3],
           [Fin 3, Fin 3, Fin 3, Fin 3, Fin 3, Fin 3]],
          [[Fin 3, Fin 3, Fin 3, Fin 3, Fin 3, Fin 3],
           [Fin 3, Fin 3, Fin 3, Fin 3, Fin 3, Fin 3],
           [Fin 3, Fin 3, Fin 3, Fin 3, Fin 3, Fin 3],
           [Fin 3, Fin 3, Fin 3, Fin 3, Fin 3, Fin 3]]],
       p_diffs =
         [[[Fin 0, Fin 0, Fin 0, Fin 0, Fin 0],
           [Fin 0, Fin 0, Fin 0, Fin 0, Fin 0],
           [Fin 0, Fin 0, Fin 0, Fin 0, Fin 0],
           [Fin 0, Fin 0, Fin 0, Fin 0, Fin 0]],
          [[Fin 0, Fin 0, Fin 0, Fin 0, Fin 0],
           [Fin 0, Fin 0, Fin 0, Fin 0, Fin 0],
           [Fin 0, Fin 0, Fin 0, Fin 0, Fin 0],
           [Fin 0, Fin 0, Fin 0, Fin 0, Fin 0]]],
       p_curve_latent =
         [[[Fin 0, Fin 0, Fin 0, Fin 0, Fin 0, Fin 0, Fin 0, Fin 0, Fin 0, Fin 0, Fin 0, Fin 0],
           [Fin 0, Fin 0, Fin 0, Fin 0, Fin 0, Fin 0, Fin 0, Fin 0, Fin 0, Fin 0, Fin 0, Fin 0],
           [Fin 0, Fin 0, Fin 0, Fin 0, Fin 0, Fin 0, Fin 0, Fin 0, Fin 0, Fin 0, Fin 0, Fin 0],
           [Fin 0, Fin 0, Fin 0, Fin 0, Fin 0, Fin 0, Fin 0, Fin 0, Fin 0, Fin 0, Fin 0, Fin 0]],
          [[Fin 0, Fin 0, Fin 0, Fin 0, Fin 0, Fin 0, Fin 0, Fin 0, Fin 0, Fin 0, Fin 0, Fin 0],
           [Fin 0, Fin 0, Fin 0, Fin 0, Fin 0, Fin 0, Fin 0, Fin 0, Fin 0, Fin 0, Fin 0, Fin 0],
           [Fin 0, Fin 0, Fin 0, Fin 0, Fin 0, Fin 0, Fin 0, Fin 0, Fin 0, Fin 0, Fin 0, Fin 0],
           [Fin 0, Fin 0, Fin 0, Fin 0, Fin 0, Fin 0, Fin 0, Fin 0, Fin 0, Fin 0, Fin 0, Fin 0]]] \<rparr>"

section \<open>Basic facts\<close>

lemma bindE_Inr [simp]: "bindE (Inr v) f = f v"
  by (simp add: bindE_def)

lemma bindE_Inl [simp]: "bindE (Inl e) f = Inl e"
  by (simp add: bindE_def)

lemma bindE_eq_Inr: "bindE r f = Inr v \<longleftrightarrow> (\<exists>u. r = Inr u \<and> f u = Inr v)"
  by (cases r) simp_all


lemma cross_attn_shape_Inr: "cross_attn_shape w x ctx mk = Inr y \<Longrightarrow> y = x"
  by (auto simp: cross_attn_shape_def split: list.splits if_splits)

lemma Decoder1D_forward_Inr:
  assumes "Decoder1D_forward d zs = Inr t"
  shows "t = [hd zs, 1 + dec_max_curves_num d, dec_attn_dim d]"
proof -
  from assms obtain bs n c where zs: "zs = [bs, n, c]"
    by (auto simp: Decoder1D_forward_def split: list.splits)
  from assms obtain ctx q where
    q: "cross_attn_shape (dec_attn_dim d) [bs, 1 + dec_max_curves_num d, dec_attn_dim d] ctx None
          = Inr q"
    and t: "linear_shape (dec_attn_dim d) (dec_attn_dim d) q = Inr t"
    unfolding Decoder1D_forward_def zs by (auto simp: bindE_eq_Inr Let_def)
  from cross_attn_shape_Inr[OF q] t show ?thesis
    by (simp add: zs linear_shape_def)
qed

lemma decode_outer_Inr:
  assumes "decode_outer lc d z rd = Inr r"
  shows "\<exists>b n. z = [b, lc, n] \<and>
     r = (if rd then DecoderOutput [b, 1 + dec_max_curves_num d, dec_attn_dim d]
          else DecoderTuple [b, 1 + dec_max_curves_num d, dec_attn_dim d])"
  using assms
  by (auto simp: decode_outer_def decode_inner_def bindE_eq_Inr swap_last_two_def
      linear_shape_def split: list.splits if_splits dest!: Decoder1D_forward_Inr)

text \<open>
  Without the latent positional bias the decoder accepts any number of latent positions,
  and its output has \<open>1 + max_curves_num\<close> tokens of the attention width.
\<close>

lemma decode_without_pos_emb:
  "\<not> use_latent_pos_emb c \<Longrightarrow>
   decode (AutoencoderKLWireframe_init c) [b, latent_channels c, n] True
     = Inr (DecoderOutput [b, 1 + max_curves_num c, attn_dim c])"
  by (simp add: decode_def decode_outer_def decode_inner_def Decoder1D_forward_def
      AutoencoderKLWireframe_init_def Decoder1D_init_def swap_last_two_def
      linear_shape_def self_attn_shape_def cross_attn_shape_def)

lemma replicate_6: "replicate 6 x = [x, x, x, x, x, x]"
  by (simp add: numeral_eq_Suc)

lemma replicate_12: "replicate 12 x = [x, x, x, x, x, x, x, x, x, x, x, x]"
  by (simp add: numeral_eq_Suc)

lemmas eval_defs =
  forward_def loss_def loss_shapes_ok_def rect2_def rect3_def row_width_def cls_target_def
  ce_loss_def select1_def select2_def select3_def repeat_last_def mse_loss_fn_def fmean_def
  fsum_def fsub_def kl_divergence_def same_shape3_def xs_mask_of_def
  AutoencoderKLWireframe_init_def default_config_def linspace_def Let_def
  replicate_6 replicate_12

lemma length_linspace: "length (linspace a b n) = n"
  by (simp add: linspace_def)

lemma flag_sum_counts_valid:
  assumes "\<forall>q\<in>set item. flag q = 0 \<or> flag q = 1"
  shows "sum_list (map flag item)
         = int (length (filter (\<lambda>q. (0.5 :: real) < of_int (flag q)) item))"
  using assms by (induction item) auto

text \<open>What a call of \<^verbatim>\<open>forward\<close> with \<^verbatim>\<open>return_dict\<close> and \<^verbatim>\<open>return_loss\<close> returns.\<close>

lemma forward_loss_Inr:
  assumes "forward m nets xs fd sp True True = Inr r"
  shows "\<exists>post dec ps klraw cls seg col row cl.
      net_encode nets (map (map (take 18)) xs) fd = Inr post
    \<and> net_decode nets (if sp then net_sample nets post else post_mean post) = Inr dec
    \<and> (if use_mlp_predict (m_config m) then net_mlp_predict nets dec
        else net_linear_predict nets dec) = Inr ps
    \<and> kl_divergence post = Inr klraw
    \<and> loss m nets (map (map (take 6)) xs) fd (map (map (drop 6)) xs) (xs_mask_of fd) ps
        = Inr (cls, seg, col, row, cl)
    \<and> r = LossPair
          (fadd (fadd (fadd (fadd (fadd
             (fmul (cls_loss_weight (m_config m)) cls)
             (fmul (segment_loss_weight (m_config m)) seg))
             (fmul (col_diff_loss_weight (m_config m)) col))
             (fmul (row_diff_loss_weight (m_config m)) row))
             (fmul (curve_latent_loss_weight (m_config m)) cl))
             (fmul (kl_loss_weight (m_config m)) (if sp then klraw else fmul (Fin 0) klraw)))
          [(''cls_ce_loss'', cls), (''segment_mse_loss'', seg), (''col_diff_ce_loss'', col),
           (''row_diff_ce_loss'', row), (''curve_latent_loss'', cl),
           (''kl_loss'', if sp then klraw else fmul (Fin 0) klraw),
           (''mu'', fmean (map fabs (concat (concat (post_mean post))))),
           (''std'', fmean (concat (concat (post_std post))))]"
  using assms unfolding forward_def Let_def bindE_eq_Inr
  apply (simp only: not_True_eq_False if_False if_True bindE_eq_Inr)
  apply (elim exE conjE)
  subgoal for post dec ps klraw res
    by (cases res; cases sp) auto
  done

lemmas fixture_defs =
  tiny_config_def tiny_preds_def tiny_networks_def tiny_xs_def tiny_flag_diffs_def
  nan_preds_def nan_networks_def nan_xs_def echo_networks_def

section \<open>Facts about mask selection and the loss\<close>

lemma select1_Nil [simp]: "select1 [] xs = []" "select1 ms [] = []"
  by (simp_all add: select1_def)

lemma select1_Cons [simp]:
  "select1 (m # ms) (x # xs) = (if m then x # select1 ms xs else select1 ms xs)"
  by (simp add: select1_def)

lemma select2_Nil [simp]: "select2 [] xs = []" "select2 ms [] = []"
  by (simp_all add: select2_def)

lemma select2_Cons [simp]: "select2 (m # ms) (x # xs) = select1 m x @ select2 ms xs"
  by (simp add: select2_def)

lemma select3_Nil [simp]: "select3 [] xs = []" "select3 ms [] = []"
  by (simp_all add: select3_def)

lemma select3_Cons [simp]: "select3 (m # ms) (x # xs) = select2 m x @ select3 ms xs"
  by (simp add: select3_def)

lemma select1_replicate:
  "length row = r \<Longrightarrow> select1 (replicate r v) row = (if v then row else [])"
  by (induction row arbitrary: r) auto

lemma select2_repeat_rows:
  "list_all (\<lambda>row. length row = r) rows \<Longrightarrow>
   select2 (map (replicate r) ms) rows = concat (select1 ms rows)"
proof (induction ms arbitrary: rows)
  case Nil
  then show ?case by simp
next
  case (Cons m ms)
  then show ?case
    by (cases rows) (auto simp: select1_replicate)
qed

lemma select3_repeat_last:
  "list_all (list_all (\<lambda>row. length row = r)) X \<Longrightarrow>
   select3 (repeat_last r M) X = concat (select2 M X)"
proof (induction M arbitrary: X)
  case Nil
  then show ?case by (simp add: repeat_last_def)
next
  case (Cons m M)
  then show ?case
    by (cases X) (auto simp: repeat_last_def select2_repeat_rows)
qed

lemma length_select1:
  "length ms = length xs \<Longrightarrow> length (select1 ms xs) = length (filter (\<lambda>v. v) ms)"
  by (induction ms xs rule: list_induct2) auto

lemma select1_map2:
  "length ms = length ps \<Longrightarrow> length ps = length gs \<Longrightarrow>
   select1 ms (map2 f ps gs) = map2 f (select1 ms ps) (select1 ms gs)"
  by (induction ms ps gs rule: list_induct3) auto

lemma length_select2:
  "list_all2 (\<lambda>m x. length m = length x) M X \<Longrightarrow>
   length (select2 M X) = length (filter (\<lambda>v. v) (concat M))"
  by (induction rule: list_all2_induct) (auto simp: length_select1)

lemma select2_map2:
  "list_all2 (\<lambda>m p. length m = length p) M P \<Longrightarrow>
   list_all2 (\<lambda>m g. length m = length g) M G \<Longrightarrow>
   select2 M (map2 (map2 f) P G) = map2 f (select2 M P) (select2 M G)"
proof (induction M arbitrary: P G)
  case Nil
  then show ?case by simp
next
  case (Cons m M)
  from Cons.prems obtain p P' g G' where PG: "P = p # P'" "G = g # G'"
    and l: "length m = length p" "length m = length g"
    and r: "list_all2 (\<lambda>m p. length m = length p) M P'"
      "list_all2 (\<lambda>m g. length m = length g) M G'"
    by (auto simp: list_all2_Cons1)
  have "length (select1 m p) = length (select1 m g)"
    using l by (simp add: length_select1)
  then show ?case
    using Cons.IH[OF r] l by (simp add: PG select1_map2)
qed

lemma map2_map_fuse:
  "map2 f (map h G) (map2 e P (map t G)) = map2 (\<lambda>p g. f (h g) (e p (t g))) P G"
proof (induction P arbitrary: G)
  case Nil
  then show ?case by simp
next
  case (Cons p P)
  then show ?case by (cases G) auto
qed

lemma rect_list_all2:
  "rect2 b n M \<Longrightarrow> rect3 b n c X \<Longrightarrow> list_all2 (\<lambda>m x. length m = length x) M X"
  by (auto simp: rect2_def rect3_def list_all2_conv_all_nth list_all_length)

lemma rect2_list_all2:
  "rect2 b n M \<Longrightarrow> rect2 b n X \<Longrightarrow> list_all2 (\<lambda>m x. length m = length x) M X"
  by (auto simp: rect2_def list_all2_conv_all_nth list_all_length)

lemma rect3_rows:
  "rect3 b n c X \<Longrightarrow> list_all (list_all (\<lambda>row. length row = c)) X"
  by (auto simp: rect3_def rect2_def list_all_iff)


lemma rect3_map2:
  "rect3 b n c P \<Longrightarrow> rect3 b n c G \<Longrightarrow> rect3 b n c (map2 (map2 (map2 f)) P G)"
  by (auto simp: rect3_def rect2_def list_all_length)

lemma rect2_map2:
  "rect3 b n c P \<Longrightarrow> rect2 b n G \<Longrightarrow> rect2 b n (map2 (map2 f) P G)"
  by (auto simp: rect3_def rect2_def list_all_length)

lemma rect2_replicate: "length w = n \<Longrightarrow> rect2 b n (replicate b w)"
  by (auto simp: rect2_def list_all_length)

lemma latent_fuse:
  "map2 (map2 (map2 f)) (map (map (map w)) (map (map hh) G))
     (map2 (map2 (map2 e)) P (map (map t) G))
   = map2 (map2 (\<lambda>p g. map2 f (map w (hh g)) (map2 e p (t g)))) P G"
proof -
  have "map (map (map w)) (map (map hh) G) = map (map (\<lambda>g. map w (hh g))) G"
    by simp
  then show ?thesis
    by (simp only: map2_map_fuse)
qed

lemma loss_shapes_okD:
  assumes "loss_shapes_ok m seg fd cl xm ps"
  shows "rect2 (length (p_cls ps)) (max_curves_num (m_config m)) fd"
    and "rect2 (length (p_cls ps)) (max_curves_num (m_config m)) xm"
    and "length (m_col_weights m) = max_curves_num (m_config m)"
    and "rect3 (length (p_cls ps)) (max_curves_num (m_config m)) 6 (p_segments ps)"
    and "rect3 (length (p_cls ps)) (max_curves_num (m_config m)) 6 seg"
    and "\<exists>c. rect3 (length (p_cls ps)) (max_curves_num (m_config m)) c (p_diffs ps)"
    and "rect3 (length (p_cls ps)) (max_curves_num (m_config m)) 12 (p_curve_latent ps)"
    and "rect3 (length (p_cls ps)) (max_curves_num (m_config m)) 24 cl"
  using assms by (auto simp: loss_shapes_ok_def Let_def split: option.splits)

lemma loss_normal_form:
  assumes ok: "loss_shapes_ok m seg fd cl xm ps"
  shows "loss m nets seg fd cl xm ps =
    Inr (fmean (map2 (ce_loss m nets (max_curves_num (m_config m))
                        (label_smoothing (m_config m)) None) (p_cls ps) (cls_target fd)),
         fmean (concat (map2 (map2 mse_loss_fn) (select2 xm (p_segments ps))
                          (select2 xm seg))),
         fmean (map2 fmul
                  (map2 (\<lambda>logits q.
                           ce_loss m nets (max_col_diff (m_config m))
                             (label_smoothing (m_config m))
                             (Some (m_col_diff_class_weights m))
                             (take (max_col_diff (m_config m)) logits) (col_diff q))
                     (select2 xm (p_diffs ps)) (select2 xm fd))
                  (select2 xm (replicate (length (p_cls ps)) (m_col_weights m)))),
         fmean (map2 (\<lambda>logits q.
                        ce_loss m nets (max_row_diff (m_config m))
                          (label_smoothing (m_config m))
                          (Some (m_row_diff_class_weights m))
                          (drop (max_col_diff (m_config m)) logits) (row_diff q))
                  (select2 xm (p_diffs ps)) (select2 xm fd)),
         fmean (concat
                  (map2 (\<lambda>p g.
                           map2 fmul
                             (map (\<lambda>s. fsub (Fin 1.2)
                                          (fmul (Fin 0.5) (flog (fadd s (Fin 1.7183)))))
                                (map (fclamp 0 1) (drop 12 g)))
                             (map2 mse_loss_fn p (take 12 g)))
                     (select2 xm (p_curve_latent ps)) (select2 xm cl))))"
proof -
  let ?b = "length (p_cls ps)" and ?n = "max_curves_num (m_config m)"
  note d = loss_shapes_okD[OF ok]
  from d(6) obtain c where pd: "rect3 ?b ?n c (p_diffs ps)" by blast
  have seg_eq:
    "select3 (repeat_last 6 xm) (map2 (map2 (map2 mse_loss_fn)) (p_segments ps) seg)
     = concat (map2 (map2 mse_loss_fn) (select2 xm (p_segments ps)) (select2 xm seg))"
    using d(2,4,5)
    by (simp add: select3_repeat_last rect3_rows[OF rect3_map2] select2_map2 rect_list_all2)
  have col1: "select2 xm (map2 (map2 f) (p_diffs ps) fd)
     = map2 f (select2 xm (p_diffs ps)) (select2 xm fd)" for f :: "fl list \<Rightarrow> flag_diff \<Rightarrow> fl"
    using d(1,2) pd by (simp add: select2_map2 rect_list_all2 rect2_list_all2)
  have col2: "select2 xm (map2 (map2 fmul) (map2 (map2 f) (p_diffs ps) fd)
                 (replicate ?b (m_col_weights m)))
     = map2 fmul (map2 f (select2 xm (p_diffs ps)) (select2 xm fd))
         (select2 xm (replicate ?b (m_col_weights m)))" for f :: "fl list \<Rightarrow> flag_diff \<Rightarrow> fl"
    using d(1,2,3) pd
    by (simp add: select2_map2 rect2_list_all2 rect2_map2 rect2_replicate flip: col1)
  have lat_rows: "list_all (list_all (\<lambda>row. length row = 12))
     (map2 (map2 (\<lambda>p g. map2 fmul (map w (map (fclamp 0 1) (drop 12 g)))
                             (map2 mse_loss_fn p (take 12 g))))
        (p_curve_latent ps) cl)" for w
    using d(7,8) by (auto simp: rect3_def rect2_def list_all_length)
  have lat_eq:
    "select3 (repeat_last 12 xm)
       (map2 (map2 (map2 fmul))
          (map (map (map w)) (map (map (\<lambda>v. map (fclamp 0 1) (drop 12 v))) cl))
          (map2 (map2 (map2 mse_loss_fn)) (p_curve_latent ps) (map (map (take 12)) cl)))
     = concat (map2 (\<lambda>p g. map2 fmul (map w (map (fclamp 0 1) (drop 12 g)))
                             (map2 mse_loss_fn p (take 12 g)))
                 (select2 xm (p_curve_latent ps)) (select2 xm cl))" for w
    using d(2,7,8)
    by (simp only: latent_fuse select3_repeat_last[OF lat_rows])
       (simp add: select2_map2 rect_list_all2)
  show ?thesis
    using ok
    by (simp only: loss_def Let_def seg_eq col1 col2 lat_eq not_True_eq_False if_False
        simp_thms)
qed

lemma set_select1: "set (select1 ms xs) \<subseteq> set xs"
  by (auto simp: select1_def dest: set_zip_rightD)

lemma set_select2: "set (select2 M X) \<subseteq> set (concat X)"
proof (induction M arbitrary: X)
  case Nil
  then show ?case by simp
next
  case (Cons m M)
  then show ?case
    using set_select1 by (cases X) fastforce+
qed

lemma select2_rows:
  "rect3 b n c X \<Longrightarrow> list_all (\<lambda>row. length row = c) (select2 M X)"
  using set_select2[of M X] by (auto simp: rect3_def rect2_def list_all_iff)

lemma length_concat_const:
  "list_all (\<lambda>r. length r = k) E \<Longrightarrow> length (concat E) = k * length E"
  by (induction E) auto

lemma loss_Inr_shapes:
  "loss m nets seg fd cl xm ps = Inr r \<Longrightarrow> loss_shapes_ok m seg fd cl xm ps"
  by (auto simp: loss_def split: if_splits)

lemmas spec_defs =
  spec_config_def spec_flag_diffs_def spec_flag_diffs_zeroed_def spec_gt_segment_coords_def
  spec_gt_segment_coords_zeroed_def spec_gt_curve_latent_def spec_gt_curve_latent_zeroed_def
  spec_preds_def

lemma spec_shapes_ok:
  "loss_shapes_ok (AutoencoderKLWireframe_init spec_config) spec_gt_segment_coords
     spec_flag_diffs spec_gt_curve_latent (xs_mask_of spec_flag_diffs) spec_preds"
  by (simp add: loss_shapes_ok_def rect2_def rect3_def row_width_def xs_mask_of_def
      AutoencoderKLWireframe_init_def default_config_def length_linspace Let_def spec_defs)

lemma rect2_map_map: "rect2 b n (map (map f) t) = rect2 b n t"
  by (auto simp: rect2_def list_all_iff)

lemma same_shape3_rect3: "same_shape3 a b \<Longrightarrow> rect3 x y z a = rect3 x y z b"
  by (auto simp: same_shape3_def rect3_def rect2_def list_all2_conv_all_nth list_all_length)

lemma xs_mask_of_flags:
  "xs_mask_of fd = map (map (\<lambda>f. (0.5 :: real) < of_int f)) (map (map flag) fd)"
  by (simp add: xs_mask_of_def)

lemma cls_target_flags: "cls_target fd = map (\<lambda>fs. sum_list fs - 1) (map (map flag) fd)"
  by (simp add: cls_target_def)

lemma loss_cong_on_valid:
  assumes flags: "map (map flag) fd' = map (map flag) fd"
    and shapes: "same_shape3 seg' seg" "same_shape3 cl' cl"
    and valid: "select2 (xs_mask_of fd) seg' = select2 (xs_mask_of fd) seg"
      "select2 (xs_mask_of fd) fd' = select2 (xs_mask_of fd) fd"
      "select2 (xs_mask_of fd) cl' = select2 (xs_mask_of fd) cl"
  shows "loss m nets seg' fd' cl' (xs_mask_of fd') ps = loss m nets seg fd cl (xs_mask_of fd) ps"
proof -
  have xm: "xs_mask_of fd' = xs_mask_of fd"
    by (simp only: xs_mask_of_flags flags)
  have ct: "cls_target fd' = cls_target fd"
    by (simp only: cls_target_flags flags)
  have r2: "rect2 b n fd' = rect2 b n fd" for b n
    using rect2_map_map[of b n flag fd'] rect2_map_map[of b n flag fd] flags by simp
  have ok: "loss_shapes_ok m seg' fd' cl' (xs_mask_of fd) ps
            = loss_shapes_ok m seg fd cl (xs_mask_of fd) ps"
    by (simp add: loss_shapes_ok_def Let_def r2 same_shape3_rect3[OF shapes(1)]
        same_shape3_rect3[OF shapes(2)])
  show ?thesis
  proof (cases "loss_shapes_ok m seg fd cl (xs_mask_of fd) ps")
    case True
    with ok have ok': "loss_shapes_ok m seg' fd' cl' (xs_mask_of fd) ps" by simp
    show ?thesis
      unfolding xm loss_normal_form[OF True] loss_normal_form[OF ok'] valid ct ..
  next
    case False
    with ok show ?thesis
      by (simp add: loss_def xm)
  qed
qed

lemma zero_invalid1_shape: "list_all2 (\<lambda>u v. length u = length v) (zero_invalid1 ms xs) xs"
  by (induction ms xs rule: zero_invalid1.induct) (simp_all add: zero_row_def)

lemma zero_invalid_shape: "same_shape3 (zero_invalid M X) X"
  unfolding same_shape3_def
  by (induction M X rule: zero_invalid.induct) (simp_all add: zero_invalid1_shape)

lemma select1_zero_invalid1: "select1 ms (zero_invalid1 ms xs) = select1 ms xs"
  by (induction ms xs rule: zero_invalid1.induct) simp_all

lemma select2_zero_invalid: "select2 M (zero_invalid M X) = select2 M X"
  by (induction M X rule: zero_invalid.induct) (simp_all add: select1_zero_invalid1)

lemma flags_zero_invalid_offsets: "map (map flag) (zero_invalid_offsets fd) = map (map flag) fd"
  by (simp add: zero_invalid_offsets_def comp_def if_distrib cong: if_cong)

lemma select1_map_if:
  "select1 (map P row) (map (\<lambda>q. if P q then q else g q) row) = select1 (map P row) row"
  by (induction row) simp_all

lemma select2_zero_invalid_offsets:
  "select2 (xs_mask_of fd) (zero_invalid_offsets fd) = select2 (xs_mask_of fd) fd"
  by (induction fd) (simp_all add: xs_mask_of_def zero_invalid_offsets_def select1_map_if)

section \<open>The linear strategy's feature width\<close>

text \<open>
  C6. The claim: for every \<^verbatim>\<open>max_col_diff\<close> and \<^verbatim>\<open>max_row_diff\<close> the feature layer of the
  linear strategy is \<open>6 + (max_col_diff + max_row_diff) + 12\<close> wide and the three
  assertions of \<^verbatim>\<open>linear_predict\<close> hold. The constructor fixes the width at
  \<open>6 + 6 + 32 + 12 = 56\<close>: with \<^verbatim>\<open>max_col_diff = 4\<close> and \<^verbatim>\<open>max_row_diff = 16\<close> the layer is 56
  wide, where the claim has 38, and on a decoder output of shape \<open>(2, 129, 512)\<close> the last
  slice is 30 wide and its assertion fails.
\<close>

theorem linear_predict_width_fixed_at_56:
  "predict_features_width
     (AutoencoderKLWireframe_init (default_config\<lparr>max_col_diff := 4, max_row_diff := 16\<rparr>))
     = Some 56
   \<and> 56 \<noteq> 6 + (4 + 16) + (12::nat)
   \<and> linear_predict
       (AutoencoderKLWireframe_init (default_config\<lparr>max_col_diff := 4, max_row_diff := 16\<rparr>))
       [2, 129, 512] = Inl AssertionError"
  by (simp add: predict_features_width_def linear_predict_def linear_predict_shape_def
      AutoencoderKLWireframe_init_def default_config_def init_heads_def linear_shape_def
      slice_len_def Let_def)

text \<open>
  With the linear strategy, \<^verbatim>\<open>linear_predict\<close> passes its assertions on a decoder output
  exactly when \<^verbatim>\<open>max_col_diff + max_row_diff = 38\<close>, the sum of the defaults 6 and 32.
\<close>

lemma linear_predict_asserts:
  assumes "\<not> use_mlp_predict c"
  shows "(\<exists>p. linear_predict (AutoencoderKLWireframe_init c) [b, Suc n, attn_dim c] = Inr p)
         \<longleftrightarrow> max_col_diff c + max_row_diff c = 38"
  using assms
  by (auto simp: linear_predict_def linear_predict_shape_def AutoencoderKLWireframe_init_def
      init_heads_def linear_shape_def slice_len_def Let_def min_def)

section \<open>Shapes of the posterior and of the reconstruction\<close>




text \<open>
  C5. The claim: every latent of shape \<open>(B, latent_channels, wireframe_latent_num)\<close>
  decodes to a tensor of shape \<open>(B, 1 + max_curves_num, attn_dim)\<close>. The model's constructor
  does not hand \<^verbatim>\<open>wireframe_latent_num\<close> to \<^verbatim>\<open>Decoder1D\<close>, whose positional bias therefore
  always has 64 rows: with \<^verbatim>\<open>use_latent_pos_emb = True\<close> and \<^verbatim>\<open>wireframe_latent_num = 8\<close> a
  latent of shape \<open>(2, 8, 8)\<close> makes \<^verbatim>\<open>decode\<close> raise, the bias of shape \<open>(64, 512)\<close> not
  broadcasting against \<open>(2, 8, 512)\<close>.
\<close>

theorem decode_fails_with_latent_pos_emb:
  "decode (AutoencoderKLWireframe_init
            (default_config\<lparr>wireframe_latent_num := 8, use_latent_pos_emb := True\<rparr>))
     [2, 8, 8] True = Inl ShapeError"
  by (simp add: decode_def decode_outer_def decode_inner_def Decoder1D_forward_def
      AutoencoderKLWireframe_init_def default_config_def Decoder1D_init_def swap_last_two_def
      linear_shape_def broadcast_def bdim_def)

text \<open>
  The constructor hands neither \<^verbatim>\<open>max_col_diff\<close> nor \<^verbatim>\<open>max_row_diff\<close> to \<^verbatim>\<open>Encoder1D\<close>
  either, whose offset tables keep 6 and 32 entries: with \<^verbatim>\<open>max_col_diff = 10\<close> a column
  offset 7, inside the configured range, has no entry and \<^verbatim>\<open>encode\<close> raises.
\<close>

lemma encode_rejects_configured_offset:
  "encode (AutoencoderKLWireframe_init (default_config\<lparr>max_col_diff := 10, max_curves_num := 2\<rparr>))
     [1, 2, 18]
     [[\<lparr>flag = 1, col_diff = 7, row_diff = 17\<rparr>, \<lparr>flag = 0, col_diff = 0, row_diff = 0\<rparr>]]
   = Inl IndexError"
  by (simp add: encode_def Encoder1D_forward_def AutoencoderKLWireframe_init_def
      default_config_def Encoder1D_init_def slice_len_def PointEmbed_shape_def fd_dims_def
      embedding_shape_def Let_def)

section \<open>What the decode-only model returns\<close>

text \<open>
  C10. The claim: for every latent input, \<^verbatim>\<open>AutoencoderKLWireframeFastDecode.forward\<close>
  returns the one-element tuple of the raw decoder output with \<^verbatim>\<open>return_dict = False\<close> and
  the dictionary of the four predictions with \<^verbatim>\<open>return_dict = True\<close>, the heads being
  evaluated in both cases. The heads do run before either return, and the constructor of
  this class fixes the width of \<^verbatim>\<open>predict_features\<close> at \<open>6 + 6 + 32 + 12 = 56\<close> as well:
  with \<^verbatim>\<open>max_col_diff = 4\<close> and \<^verbatim>\<open>max_row_diff = 16\<close> a latent input of shape
  \<open>(2, 64, 8)\<close> is decoded to shape \<open>(2, 129, 512)\<close>, the last assertion of
  \<^verbatim>\<open>linear_predict\<close> fails, and \<^verbatim>\<open>forward\<close> raises with either value of \<^verbatim>\<open>return_dict\<close>
  instead of returning.
\<close>

theorem fast_decode_forward_raises_at_configured_offsets:
  "fast_decode_forward
     (AutoencoderKLWireframeFastDecode_init
        (default_config\<lparr>max_col_diff := 4, max_row_diff := 16\<rparr>)) [2, 64, 8] False
     = Inl AssertionError
   \<and> fast_decode_forward
     (AutoencoderKLWireframeFastDecode_init
        (default_config\<lparr>max_col_diff := 4, max_row_diff := 16\<rparr>)) [2, 64, 8] True
     = Inl AssertionError
   \<and> bindE (decode_outer 8
             (fd_decoder (AutoencoderKLWireframeFastDecode_init
                (default_config\<lparr>max_col_diff := 4, max_row_diff := 16\<rparr>))) [2, 8, 64] True)
       sample
     = Inr [2, 129, 512]"
  by (simp add: fast_decode_forward_def fast_decode_predict_def
      AutoencoderKLWireframeFastDecode_init_def default_config_def decode_outer_def
      decode_inner_def Decoder1D_forward_def Decoder1D_init_def swap_last_two_def
      linear_shape_def self_attn_shape_def cross_attn_shape_def init_heads_def
      linear_predict_shape_def slice_len_def Let_def)

text \<open>
  Whenever \<^verbatim>\<open>forward\<close> does return with \<^verbatim>\<open>return_dict = False\<close>, its result is the
  one-element tuple of the raw decoder output, of shape \<open>(B, 1 + max_curves_num, attn_dim)\<close>,
  and the prediction heads have run on that output without an error; whenever it returns
  with \<^verbatim>\<open>return_dict = True\<close>, its result is the dictionary of the four predictions under
  the keys \<^verbatim>\<open>cls\<close>, \<^verbatim>\<open>segments\<close>, \<^verbatim>\<open>diffs\<close>, \<^verbatim>\<open>curve_latent\<close>; and it returns in the
  one case exactly when it returns in the other.
\<close>

lemma fast_decode_forward_result:
  "(fast_decode_forward (AutoencoderKLWireframeFastDecode_init c) zs False = Inr r \<longrightarrow>
      r = RawTuple [hd zs, 1 + max_curves_num c, attn_dim c]
      \<and> (\<exists>p. fast_decode_predict (AutoencoderKLWireframeFastDecode_init c)
                [hd zs, 1 + max_curves_num c, attn_dim c] = Inr p))
   \<and> (fast_decode_forward (AutoencoderKLWireframeFastDecode_init c) zs True = Inr r' \<longrightarrow>
      (\<exists>pc ps pd pl.
          fast_decode_predict (AutoencoderKLWireframeFastDecode_init c)
            [hd zs, 1 + max_curves_num c, attn_dim c] = Inr (pc, ps, pd, pl)
          \<and> r' = PredsDict [(''cls'', pc), (''segments'', ps), (''diffs'', pd),
                            (''curve_latent'', pl)]))
   \<and> ((\<exists>t. fast_decode_forward (AutoencoderKLWireframeFastDecode_init c) zs False = Inr t)
        = (\<exists>t. fast_decode_forward (AutoencoderKLWireframeFastDecode_init c) zs True = Inr t))"
proof -
  let ?m = "AutoencoderKLWireframeFastDecode_init c"
  let ?s = "[hd zs, 1 + max_curves_num c, attn_dim c]"
  have md: "dec_max_curves_num (fd_decoder ?m) = max_curves_num c"
    "dec_attn_dim (fd_decoder ?m) = attn_dim c"
    by (simp_all add: AutoencoderKLWireframeFastDecode_init_def Decoder1D_init_def)
  have dec: "dec = ?s"
    if "swap_last_two zs = Inr u"
      "bindE (decode_outer (fd_latent_channels ?m) (fd_decoder ?m) u True) sample = Inr dec"
    for u dec
  proof -
    from that(2) obtain o1
      where o1: "decode_outer (fd_latent_channels ?m) (fd_decoder ?m) u True = Inr o1"
        and s: "sample o1 = Inr dec"
      by (auto simp: bindE_eq_Inr)
    from decode_outer_Inr[OF o1] obtain b n where "u = [b, fd_latent_channels ?m, n]"
      "o1 = DecoderOutput [b, 1 + max_curves_num c, attn_dim c]"
      by (auto simp: md)
    with that(1) s show ?thesis
      by (auto simp: swap_last_two_def split: list.splits)
  qed
  have A: "fast_decode_forward ?m zs rd = Inr t \<longleftrightarrow>
     (\<exists>u dec pc ps pd pl. swap_last_two zs = Inr u
        \<and> bindE (decode_outer (fd_latent_channels ?m) (fd_decoder ?m) u True) sample = Inr dec
        \<and> fast_decode_predict ?m dec = Inr (pc, ps, pd, pl)
        \<and> t = (if rd then PredsDict [(''cls'', pc), (''segments'', ps), (''diffs'', pd),
                            (''curve_latent'', pl)] else RawTuple dec))" for rd t
    unfolding fast_decode_forward_def
    by (auto simp: bindE_eq_Inr Let_def split: prod.splits)
  show ?thesis
    by (auto simp: A dest: dec)
qed

text \<open>
  At the default configuration and a latent input of shape \<open>(2, 64, 8)\<close> both calls
  return: the tuple holds the decoder output of shape \<open>(2, 129, 512)\<close>, the dictionary the
  four predictions.
\<close>

lemma fast_decode_forward_result_default:
  "fast_decode_forward (AutoencoderKLWireframeFastDecode_init default_config) [2, 64, 8] False
     = Inr (RawTuple [2, 129, 512])
   \<and> (\<exists>p. fast_decode_predict (AutoencoderKLWireframeFastDecode_init default_config)
            [2, 129, 512] = Inr p)
   \<and> fast_decode_forward (AutoencoderKLWireframeFastDecode_init default_config) [2, 64, 8] True
     = Inr (PredsDict [(''cls'', [2, 128]), (''segments'', [2, 128, 6]),
                       (''diffs'', [2, 128, 38]), (''curve_latent'', [2, 128, 12])])"
proof -
  let ?m = "AutoencoderKLWireframeFastDecode_init default_config"
  have f: "fast_decode_forward ?m [2, 64, 8] False = Inr (RawTuple [2, 129, 512])"
    by (simp add: fast_decode_forward_def fast_decode_predict_def
        AutoencoderKLWireframeFastDecode_init_def default_config_def decode_outer_def
        decode_inner_def Decoder1D_forward_def Decoder1D_init_def swap_last_two_def
        linear_shape_def self_attn_shape_def cross_attn_shape_def init_heads_def
        linear_predict_shape_def slice_len_def Let_def)
  have t: "fast_decode_forward ?m [2, 64, 8] True
     = Inr (PredsDict [(''cls'', [2, 128]), (''segments'', [2, 128, 6]),
                       (''diffs'', [2, 128, 38]), (''curve_latent'', [2, 128, 12])])"
    by (simp add: fast_decode_forward_def fast_decode_predict_def
        AutoencoderKLWireframeFastDecode_init_def default_config_def decode_outer_def
        decode_inner_def Decoder1D_forward_def Decoder1D_init_def swap_last_two_def
        linear_shape_def self_attn_shape_def cross_attn_shape_def init_heads_def
        linear_predict_shape_def slice_len_def Let_def)
  have "\<exists>p. fast_decode_predict ?m [2, 129, 512] = Inr p"
    using fast_decode_forward_result [of default_config "[2, 64, 8]" "RawTuple [2, 129, 512]"] f
    by (simp add: default_config_def)
  with f t show ?thesis by simp
qed

section \<open>The class-weight buffers\<close>





section \<open>The classification target\<close>

text \<open>
  C3. On inputs of the declared shapes \<^verbatim>\<open>loss\<close> returns, and its first component is the
  mean, over the batch items, of the classification cross-entropy of the item's logits
  against the item's target: one class per batch item, the sum of the item's flag channel
  minus 1. For the batch item \<open>i\<close> the cross-entropy is therefore called with the target
  \<open>k - 1\<close> when the flags of the item sum to \<open>k\<close>; with flags 0 and 1 that sum is the
  number of valid segments, the positions whose flag exceeds 0.5.
\<close>

theorem cls_target_is_count_minus_one:
  assumes "loss_shapes_ok m gt_segment_coords gt_flag_diffs gt_curve_latent xs_mask ps"
    and "i < length gt_flag_diffs"
  shows "(\<exists>segment_mse_loss col_diff_ce_loss row_diff_ce_loss curve_latent_loss.
            loss m nets gt_segment_coords gt_flag_diffs gt_curve_latent xs_mask ps
            = Inr (fmean (map2 (ce_loss m nets (max_curves_num (m_config m))
                                  (label_smoothing (m_config m)) None)
                            (p_cls ps) (cls_target gt_flag_diffs)),
                   segment_mse_loss, col_diff_ce_loss, row_diff_ce_loss, curve_latent_loss))
    \<and> length (cls_target gt_flag_diffs) = length (p_cls ps)
    \<and> map2 (ce_loss m nets (max_curves_num (m_config m)) (label_smoothing (m_config m)) None)
          (p_cls ps) (cls_target gt_flag_diffs) ! i
        = ce_loss m nets (max_curves_num (m_config m)) (label_smoothing (m_config m)) None
            (p_cls ps ! i) (sum_list (map flag (gt_flag_diffs ! i)) - 1)
    \<and> (sum_list (map flag (gt_flag_diffs ! i)) = k \<longrightarrow> cls_target gt_flag_diffs ! i = k - 1)
    \<and> ((\<forall>q\<in>set (gt_flag_diffs ! i). flag q = 0 \<or> flag q = 1) \<longrightarrow>
          cls_target gt_flag_diffs ! i
            = int (length (filter (\<lambda>q. (0.5 :: real) < of_int (flag q)) (gt_flag_diffs ! i))) - 1)"
proof -
  have len: "length gt_flag_diffs = length (p_cls ps)"
    using loss_shapes_okD(1) [OF assms(1)] by (simp add: rect2_def)
  have "\<exists>segment_mse_loss col_diff_ce_loss row_diff_ce_loss curve_latent_loss.
            loss m nets gt_segment_coords gt_flag_diffs gt_curve_latent xs_mask ps
            = Inr (fmean (map2 (ce_loss m nets (max_curves_num (m_config m))
                                  (label_smoothing (m_config m)) None)
                            (p_cls ps) (cls_target gt_flag_diffs)),
                   segment_mse_loss, col_diff_ce_loss, row_diff_ce_loss, curve_latent_loss)"
    unfolding loss_normal_form [OF assms(1)] by blast
  then show ?thesis
    using assms(2) len by (simp add: cls_target_def flag_sum_counts_valid)
qed

text \<open>
  In the scenario of the specification the items have 2 and 3 valid segments and the
  targets are 1 and 2: with a classification loss that returns its target, the first
  component of \<^verbatim>\<open>loss\<close> is their mean 1.5.
\<close>

theorem cls_target_is_count_minus_one_witness:
  "(\<exists>segment_mse_loss col_diff_ce_loss row_diff_ce_loss curve_latent_loss.
      loss (AutoencoderKLWireframe_init spec_config) echo_networks spec_gt_segment_coords
        spec_flag_diffs spec_gt_curve_latent (xs_mask_of spec_flag_diffs) spec_preds
      = Inr (Fin 1.5, segment_mse_loss, col_diff_ce_loss, row_diff_ce_loss, curve_latent_loss))
   \<and> cls_target spec_flag_diffs = [1, 2]"
proof -
  have t: "cls_target spec_flag_diffs = [1, 2]"
    by (simp add: cls_target_def spec_flag_diffs_def)
  have v: "fmean (map2 (ce_loss (AutoencoderKLWireframe_init spec_config) echo_networks
                         (max_curves_num (m_config (AutoencoderKLWireframe_init spec_config)))
                         (label_smoothing (m_config (AutoencoderKLWireframe_init spec_config)))
                         None)
                   (p_cls spec_preds) (cls_target spec_flag_diffs)) = Fin 1.5"
    unfolding t
    by (simp add: ce_loss_def echo_networks_def tiny_networks_def spec_config_def
        spec_preds_def AutoencoderKLWireframe_init_def default_config_def fmean_def fsum_def)
  from cls_target_is_count_minus_one [OF spec_shapes_ok, of 0 echo_networks 2] t
  show ?thesis
    unfolding v by (simp add: spec_flag_diffs_def)
qed

section \<open>The result of the forward pass\<close>

text \<open>
  C7, as amended. A call of \<^verbatim>\<open>forward\<close> with \<^verbatim>\<open>return_loss = True\<close> and
  \<^verbatim>\<open>return_dict = True\<close> returns exactly when the encoder, the decoder on the sampled latent
  or the mode, the configured prediction heads on the decoder output, the KL formula and
  \<^verbatim>\<open>loss\<close> on those predictions all succeed, and the result is then the pair of a scalar
  and a dictionary: the dictionary holds the five task losses of \<^verbatim>\<open>loss\<close>, the KL term
  (multiplied by 0 when the mode was taken), the mean absolute posterior mean under \<^verbatim>\<open>mu\<close>
  and the mean posterior standard deviation under \<^verbatim>\<open>std\<close>, and the scalar is the sum of
  the six loss terms, each multiplied by its own configured weight. A call with
  \<^verbatim>\<open>return_dict = False\<close> returns exactly when the encoder, the decoder and the heads
  succeed, and the result is the one-element tuple of their predictions, whatever
  \<^verbatim>\<open>return_loss\<close> says: no loss is computed.
\<close>

theorem forward_returns_weighted_loss:
  "((forward m nets xs flag_diffs sample_posterior True True = Inr r) =
      (\<exists>post dec ps klraw cls seg col row cl kl.
          net_encode nets (map (map (take 18)) xs) flag_diffs = Inr post
        \<and> net_decode nets (if sample_posterior then net_sample nets post else post_mean post)
            = Inr dec
        \<and> (if use_mlp_predict (m_config m) then net_mlp_predict nets dec
            else net_linear_predict nets dec) = Inr ps
        \<and> kl_divergence post = Inr klraw
        \<and> kl = (if sample_posterior then klraw else fmul (Fin 0) klraw)
        \<and> loss m nets (map (map (take 6)) xs) flag_diffs (map (map (drop 6)) xs)
             (xs_mask_of flag_diffs) ps = Inr (cls, seg, col, row, cl)
        \<and> r = LossPair
              (fadd (fadd (fadd (fadd (fadd
                 (fmul (cls_loss_weight (m_config m)) cls)
                 (fmul (segment_loss_weight (m_config m)) seg))
                 (fmul (col_diff_loss_weight (m_config m)) col))
                 (fmul (row_diff_loss_weight (m_config m)) row))
                 (fmul (curve_latent_loss_weight (m_config m)) cl))
                 (fmul (kl_loss_weight (m_config m)) kl))
              [(''cls_ce_loss'', cls), (''segment_mse_loss'', seg),
               (''col_diff_ce_loss'', col), (''row_diff_ce_loss'', row),
               (''curve_latent_loss'', cl), (''kl_loss'', kl),
               (''mu'', fmean (map fabs (concat (concat (post_mean post))))),
               (''std'', fmean (concat (concat (post_std post))))]))
   \<and> ((forward m nets xs flag_diffs sample_posterior False return_loss = Inr r') =
      (\<exists>post dec ps.
          net_encode nets (map (map (take 18)) xs) flag_diffs = Inr post
        \<and> net_decode nets (if sample_posterior then net_sample nets post else post_mean post)
            = Inr dec
        \<and> (if use_mlp_predict (m_config m) then net_mlp_predict nets dec
            else net_linear_predict nets dec) = Inr ps
        \<and> r' = PredsTuple ps))"
proof (intro conjI iffI)
  assume "forward m nets xs flag_diffs sample_posterior True True = Inr r"
  from forward_loss_Inr [OF this]
  show "\<exists>post dec ps klraw cls seg col row cl kl.
          net_encode nets (map (map (take 18)) xs) flag_diffs = Inr post
        \<and> net_decode nets (if sample_posterior then net_sample nets post else post_mean post)
            = Inr dec
        \<and> (if use_mlp_predict (m_config m) then net_mlp_predict nets dec
            else net_linear_predict nets dec) = Inr ps
        \<and> kl_divergence post = Inr klraw
        \<and> kl = (if sample_posterior then klraw else fmul (Fin 0) klraw)
        \<and> loss m nets (map (map (take 6)) xs) flag_diffs (map (map (drop 6)) xs)
             (xs_mask_of flag_diffs) ps = Inr (cls, seg, col, row, cl)
        \<and> r = LossPair
              (fadd (fadd (fadd (fadd (fadd
                 (fmul (cls_loss_weight (m_config m)) cls)
                 (fmul (segment_loss_weight (m_config m)) seg))
                 (fmul (col_diff_loss_weight (m_config m)) col))
                 (fmul (row_diff_loss_weight (m_config m)) row))
                 (fmul (curve_latent_loss_weight (m_config m)) cl))
                 (fmul (kl_loss_weight (m_config m)) kl))
              [(''cls_ce_loss'', cls), (''segment_mse_loss'', seg),
               (''col_diff_ce_loss'', col), (''row_diff_ce_loss'', row),
               (''curve_latent_loss'', cl), (''kl_loss'', kl),
               (''mu'', fmean (map fabs (concat (concat (post_mean post))))),
               (''std'', fmean (concat (concat (post_std post))))]"
    by blast
next
  assume "\<exists>post dec ps klraw cls seg col row cl kl.
          net_encode nets (map (map (take 18)) xs) flag_diffs = Inr post
        \<and> net_decode nets (if sample_posterior then net_sample nets post else post_mean post)
            = Inr dec
        \<and> (if use_mlp_predict (m_config m) then net_mlp_predict nets dec
            else net_linear_predict nets dec) = Inr ps
        \<and> kl_divergence post = Inr klraw
        \<and> kl = (if sample_posterior then klraw else fmul (Fin 0) klraw)
        \<and> loss m nets (map (map (take 6)) xs) flag_diffs (map (map (drop 6)) xs)
             (xs_mask_of flag_diffs) ps = Inr (cls, seg, col, row, cl)
        \<and> r = LossPair
              (fadd (fadd (fadd (fadd (fadd
                 (fmul (cls_loss_weight (m_config m)) cls)
                 (fmul (segment_loss_weight (m_config m)) seg))
                 (fmul (col_diff_loss_weight (m_config m)) col))
                 (fmul (row_diff_loss_weight (m_config m)) row))
                 (fmul (curve_latent_loss_weight (m_config m)) cl))
                 (fmul (kl_loss_weight (m_config m)) kl))
              [(''cls_ce_loss'', cls), (''segment_mse_loss'', seg),
               (''col_diff_ce_loss'', col), (''row_diff_ce_loss'', row),
               (''curve_latent_loss'', cl), (''kl_loss'', kl),
               (''mu'', fmean (map fabs (concat (concat (post_mean post))))),
               (''std'', fmean (concat (concat (post_std post))))]"
  then show "forward m nets xs flag_diffs sample_posterior True True = Inr r"
    by (cases sample_posterior) (clarsimp simp: forward_def Let_def)+
next
  assume "forward m nets xs flag_diffs sample_posterior False return_loss = Inr r'"
  then show "\<exists>post dec ps.
          net_encode nets (map (map (take 18)) xs) flag_diffs = Inr post
        \<and> net_decode nets (if sample_posterior then net_sample nets post else post_mean post)
            = Inr dec
        \<and> (if use_mlp_predict (m_config m) then net_mlp_predict nets dec
            else net_linear_predict nets dec) = Inr ps
        \<and> r' = PredsTuple ps"
    unfolding forward_def Let_def bindE_eq_Inr
    by (simp only: not_False_eq_True if_True) blast
next
  assume "\<exists>post dec ps.
          net_encode nets (map (map (take 18)) xs) flag_diffs = Inr post
        \<and> net_decode nets (if sample_posterior then net_sample nets post else post_mean post)
            = Inr dec
        \<and> (if use_mlp_predict (m_config m) then net_mlp_predict nets dec
            else net_linear_predict nets dec) = Inr ps
        \<and> r' = PredsTuple ps"
  then show "forward m nets xs flag_diffs sample_posterior False return_loss = Inr r'"
    by (cases sample_posterior) (clarsimp simp: forward_def Let_def)+
qed

text \<open>
  The one-segment scenario with a sampled latent: the heads return the predictions of the
  scenario, the losses on them are 2, 1, 0, 0, 0, the KL term is 0.5 with the weight
  0.0002, and the scalar is 3.0001.
\<close>

theorem forward_returns_weighted_loss_witness:
  "forward (AutoencoderKLWireframe_init tiny_config) tiny_networks tiny_xs tiny_flag_diffs
     True True True
   = Inr (LossPair (Fin 3.0001)
       [(''cls_ce_loss'', Fin 2), (''segment_mse_loss'', Fin 1), (''col_diff_ce_loss'', Fin 0),
        (''row_diff_ce_loss'', Fin 0), (''curve_latent_loss'', Fin 0), (''kl_loss'', Fin 0.5),
        (''mu'', Fin 1), (''std'', Fin 1)])
   \<and> loss (AutoencoderKLWireframe_init tiny_config) tiny_networks
       (map (map (take 6)) tiny_xs) tiny_flag_diffs (map (map (drop 6)) tiny_xs)
       (xs_mask_of tiny_flag_diffs) tiny_preds
     = Inr (Fin 2, Fin 1, Fin 0, Fin 0, Fin 0)"
proof -
  let ?m = "AutoencoderKLWireframe_init tiny_config"
  have r: "forward ?m tiny_networks tiny_xs tiny_flag_diffs True True True
    = Inr (LossPair (Fin 3.0001)
       [(''cls_ce_loss'', Fin 2), (''segment_mse_loss'', Fin 1), (''col_diff_ce_loss'', Fin 0),
        (''row_diff_ce_loss'', Fin 0), (''curve_latent_loss'', Fin 0), (''kl_loss'', Fin 0.5),
        (''mu'', Fin 1), (''std'', Fin 1)])"
    by (simp add: eval_defs fixture_defs)
  have h: "(if use_mlp_predict (m_config ?m) then net_mlp_predict tiny_networks dec
            else net_linear_predict tiny_networks dec) = Inr ps \<Longrightarrow> ps = tiny_preds"
    for dec ps
    by (simp add: tiny_networks_def tiny_config_def AutoencoderKLWireframe_init_def
        default_config_def)
  from forward_returns_weighted_loss [THEN conjunct1, THEN iffD1, OF r]
  obtain dec ps cls seg col row cl where
    p: "(if use_mlp_predict (m_config ?m) then net_mlp_predict tiny_networks dec
         else net_linear_predict tiny_networks dec) = Inr ps"
    and l: "loss ?m tiny_networks (map (map (take 6)) tiny_xs) tiny_flag_diffs
              (map (map (drop 6)) tiny_xs) (xs_mask_of tiny_flag_diffs) ps
            = Inr (cls, seg, col, row, cl)"
    and v: "Fin 2 = cls" "Fin 1 = seg" "Fin 0 = col" "Fin 0 = row" "Fin 0 = cl"
    by auto
  from l h [OF p] v r show ?thesis by simp
qed

text \<open>
  The claim as stated fails when \<^verbatim>\<open>return_dict = False\<close>: \<^verbatim>\<open>forward\<close> returns the tuple
  \<^verbatim>\<open>(preds,)\<close> before it looks at \<^verbatim>\<open>return_loss\<close>, and no loss is computed.
\<close>

theorem forward_returns_preds_tuple_without_return_dict:
  "forward (AutoencoderKLWireframe_init tiny_config) tiny_networks tiny_xs tiny_flag_diffs
     False False True
   = Inr (PredsTuple tiny_preds)"
  by (simp add: forward_def tiny_networks_def tiny_config_def AutoencoderKLWireframe_init_def
      default_config_def Let_def)

section \<open>The KL term on the deterministic pathway\<close>

text \<open>
  C2, as amended. On the deterministic pathway (\<^verbatim>\<open>sample_posterior = False\<close>, with
  \<^verbatim>\<open>return_loss = True\<close>) the source multiplies the KL value by 0. The entry \<^verbatim>\<open>kl_loss\<close>
  of the returned dictionary is therefore exactly zero whenever the KL value computed from
  the posterior is finite, and NaN when that value is infinite or NaN.
\<close>

theorem kl_loss_zero_when_finite:
  assumes "forward m nets xs flag_diffs False True True = Inr r"
    and "net_encode nets (map (map (take 18)) xs) flag_diffs = Inr post"
    and "kl_divergence post = Inr klraw"
  shows "\<exists>total d. r = LossPair total d
     \<and> map_of d ''kl_loss'' = Some (case klraw of Fin v \<Rightarrow> Fin 0 | _ \<Rightarrow> NaN)"
  using forward_loss_Inr [OF assms(1)] assms(2,3)
  by (cases klraw) auto

text \<open>
  The one-segment scenario with the mode as latent: the KL value of the posterior is 0.5
  and the returned component is 0.
\<close>

theorem kl_loss_zero_when_finite_witness:
  "forward (AutoencoderKLWireframe_init tiny_config) tiny_networks tiny_xs tiny_flag_diffs
     False True True
   = Inr (LossPair (Fin 3)
       [(''cls_ce_loss'', Fin 2), (''segment_mse_loss'', Fin 1), (''col_diff_ce_loss'', Fin 0),
        (''row_diff_ce_loss'', Fin 0), (''curve_latent_loss'', Fin 0), (''kl_loss'', Fin 0),
        (''mu'', Fin 1), (''std'', Fin 1)])
   \<and> kl_divergence \<lparr>post_mean = [[[Fin 1]]], post_logvar = [[[Fin 0]]],
                      post_var = [[[Fin 1]]], post_std = [[[Fin 1]]]\<rparr> = Inr (Fin 0.5)
   \<and> (\<exists>total d. LossPair (Fin 3)
       [(''cls_ce_loss'', Fin 2), (''segment_mse_loss'', Fin 1), (''col_diff_ce_loss'', Fin 0),
        (''row_diff_ce_loss'', Fin 0), (''curve_latent_loss'', Fin 0), (''kl_loss'', Fin 0),
        (''mu'', Fin 1), (''std'', Fin 1)] = LossPair total d
        \<and> map_of d ''kl_loss'' = Some (Fin 0))"
proof -
  let ?post = "\<lparr>post_mean = [[[Fin 1]]], post_logvar = [[[Fin 0]]],
                 post_var = [[[Fin 1]]], post_std = [[[Fin 1]]]\<rparr>"
  have r: "forward (AutoencoderKLWireframe_init tiny_config) tiny_networks tiny_xs
      tiny_flag_diffs False True True
    = Inr (LossPair (Fin 3)
       [(''cls_ce_loss'', Fin 2), (''segment_mse_loss'', Fin 1), (''col_diff_ce_loss'', Fin 0),
        (''row_diff_ce_loss'', Fin 0), (''curve_latent_loss'', Fin 0), (''kl_loss'', Fin 0),
        (''mu'', Fin 1), (''std'', Fin 1)])"
    by (simp add: eval_defs fixture_defs)
  have e: "net_encode tiny_networks (map (map (take 18)) tiny_xs) tiny_flag_diffs = Inr ?post"
    by (simp add: tiny_networks_def)
  have k: "kl_divergence ?post = Inr (Fin 0.5)"
    by (simp add: eval_defs)
  from kl_loss_zero_when_finite [OF r e k] r k show ?thesis
    by simp
qed

text \<open>
  The claim as stated fails on a posterior that is not finite: after a NaN in the input the
  KL value is NaN, and 0 times NaN is NaN, not zero.
\<close>

theorem kl_loss_nan_on_nan_posterior:
  "forward (AutoencoderKLWireframe_init tiny_config) nan_networks nan_xs tiny_flag_diffs
     False True True
   = Inr (LossPair NaN
       [(''cls_ce_loss'', NaN), (''segment_mse_loss'', NaN), (''col_diff_ce_loss'', NaN),
        (''row_diff_ce_loss'', NaN), (''curve_latent_loss'', NaN), (''kl_loss'', NaN),
        (''mu'', NaN), (''std'', NaN)])"
  by (simp add: eval_defs fixture_defs)

section \<open>The masked losses\<close>

text \<open>
  C8. Whenever \<^verbatim>\<open>loss\<close> returns, its segment-regression component is the sum of the
  squared differences between prediction and ground truth over the six coordinates of the
  valid positions, those under a true entry of \<^verbatim>\<open>xs_mask\<close>, divided by six times the number
  of valid positions: predictions and ground truth are read at the valid positions only,
  each selected row has six entries, and the padded positions enter neither the sum nor
  the count.
\<close>

theorem segment_mse_is_masked_mean:
  assumes "loss m nets gt_segment_coords gt_flag_diffs gt_curve_latent xs_mask ps
           = Inr (cls_ce_loss, segment_mse_loss, col_diff_ce_loss, row_diff_ce_loss,
                  curve_latent_loss)"
  shows "segment_mse_loss
         = fdiv_count
             (fsum (concat (map2 (map2 (\<lambda>p g. fmul (fsub p g) (fsub p g)))
                              (select2 xs_mask (p_segments ps))
                              (select2 xs_mask gt_segment_coords))))
             (6 * length (filter (\<lambda>v. v) (concat xs_mask)))
     \<and> length (select2 xs_mask (p_segments ps)) = length (filter (\<lambda>v. v) (concat xs_mask))
     \<and> length (select2 xs_mask gt_segment_coords) = length (filter (\<lambda>v. v) (concat xs_mask))
     \<and> list_all (\<lambda>row. length row = 6) (select2 xs_mask (p_segments ps))
     \<and> list_all (\<lambda>row. length row = 6) (select2 xs_mask gt_segment_coords)"
proof -
  let ?A = "select2 xs_mask (p_segments ps)" and ?B = "select2 xs_mask gt_segment_coords"
  let ?E = "map2 (map2 mse_loss_fn) ?A ?B"
  have sq: "mse_loss_fn = (\<lambda>p g. fmul (fsub p g) (fsub p g))"
    by (simp add: fun_eq_iff mse_loss_fn_def Let_def)
  have ok: "loss_shapes_ok m gt_segment_coords gt_flag_diffs gt_curve_latent xs_mask ps"
    using assms by (rule loss_Inr_shapes)
  note d = loss_shapes_okD[OF ok]
  have lA: "length ?A = length (filter (\<lambda>v. v) (concat xs_mask))"
    and lB: "length ?B = length (filter (\<lambda>v. v) (concat xs_mask))"
    using d(2,4,5) by (simp_all add: length_select2 rect_list_all2)
  have rA: "list_all (\<lambda>row. length row = 6) ?A" and rB: "list_all (\<lambda>row. length row = 6) ?B"
    using d(4,5) by (simp_all add: select2_rows)
  have "list_all (\<lambda>r. length r = 6) ?E"
    using rA rB lA lB by (auto simp: list_all_length)
  then have lE: "length (concat ?E) = 6 * length (filter (\<lambda>v. v) (concat xs_mask))"
    using lA lB by (simp add: length_concat_const)
  have "segment_mse_loss = fmean (concat ?E)"
    using assms unfolding loss_normal_form[OF ok] by simp
  then show ?thesis
    using lE lA lB rA rB unfolding sq by (simp add: fmean_def)
qed

text \<open>
  In the scenario of the specification, with 2 and 3 valid segments among \<open>2 * 4\<close>
  positions, the denominator is 30, and the component is 4: the squared difference of
  every valid coordinate, predicted 3 against 1. The padded positions, whose squared
  difference would be 16, do not count.
\<close>

theorem segment_mse_is_masked_mean_witness:
  "(\<exists>cls col row cl.
      loss (AutoencoderKLWireframe_init spec_config) tiny_networks spec_gt_segment_coords
        spec_flag_diffs spec_gt_curve_latent (xs_mask_of spec_flag_diffs) spec_preds
      = Inr (cls, Fin 4, col, row, cl))
   \<and> 6 * length (filter (\<lambda>v. v) (concat (xs_mask_of spec_flag_diffs))) = 30"
proof -
  let ?l = "loss (AutoencoderKLWireframe_init spec_config) tiny_networks spec_gt_segment_coords
        spec_flag_diffs spec_gt_curve_latent (xs_mask_of spec_flag_diffs) spec_preds"
  have "\<exists>r. ?l = Inr r"
    using spec_shapes_ok by (simp add: loss_def Let_def)
  then obtain cls seg col row cl where l: "?l = Inr (cls, seg, col, row, cl)"
    by (metis prod_cases5)
  have n: "6 * length (filter (\<lambda>v. v) (concat (xs_mask_of spec_flag_diffs))) = 30"
    by (simp add: xs_mask_of_def spec_flag_diffs_def)
  have "seg = Fin 4"
    using segment_mse_is_masked_mean [OF l]
    by (simp add: xs_mask_of_def spec_defs fsub_def fsum_def)
  with l n show ?thesis by simp
qed

text \<open>
  C1. Let two ground truths have the same flags and shapes and the same coordinates,
  offsets and latent values at every valid position, so that they differ only where the
  flag is at most 0.5. Then \<^verbatim>\<open>loss\<close>, called with the mask of the flags as \<^verbatim>\<open>forward\<close>
  calls it, returns the same result for both: the same segment-regression, column-offset,
  row-offset and latent-regression components (and the same classification component), or
  the same error. In particular the result does not change when the coordinates, offsets
  and latent values of all invalid positions are replaced by zeros.
\<close>

theorem loss_ignores_masked_ground_truth:
  assumes "map (map flag) fd' = map (map flag) fd"
    and "same_shape3 seg' seg" and "same_shape3 cl' cl"
    and "select2 (xs_mask_of fd) seg' = select2 (xs_mask_of fd) seg"
    and "select2 (xs_mask_of fd) fd' = select2 (xs_mask_of fd) fd"
    and "select2 (xs_mask_of fd) cl' = select2 (xs_mask_of fd) cl"
  shows "loss m nets seg' fd' cl' (xs_mask_of fd') ps = loss m nets seg fd cl (xs_mask_of fd) ps
    \<and> loss m nets (zero_invalid (xs_mask_of fd) seg) (zero_invalid_offsets fd)
          (zero_invalid (xs_mask_of fd) cl) (xs_mask_of (zero_invalid_offsets fd)) ps
        = loss m nets seg fd cl (xs_mask_of fd) ps"
proof
  show "loss m nets seg' fd' cl' (xs_mask_of fd') ps = loss m nets seg fd cl (xs_mask_of fd) ps"
    using assms by (rule loss_cong_on_valid)
  show "loss m nets (zero_invalid (xs_mask_of fd) seg) (zero_invalid_offsets fd)
          (zero_invalid (xs_mask_of fd) cl) (xs_mask_of (zero_invalid_offsets fd)) ps
        = loss m nets seg fd cl (xs_mask_of fd) ps"
    by (rule loss_cong_on_valid)
       (simp_all add: flags_zero_invalid_offsets zero_invalid_shape select2_zero_invalid
          select2_zero_invalid_offsets)
qed

text \<open>
  The scenario of the specification and the same ground truth with its three padded
  positions zeroed: the hypotheses hold, \<^verbatim>\<open>loss\<close> returns, and both calls give the same
  result.
\<close>

theorem loss_ignores_masked_ground_truth_witness:
  "loss (AutoencoderKLWireframe_init spec_config) tiny_networks spec_gt_segment_coords_zeroed
     spec_flag_diffs_zeroed spec_gt_curve_latent_zeroed (xs_mask_of spec_flag_diffs_zeroed)
     spec_preds
   = loss (AutoencoderKLWireframe_init spec_config) tiny_networks spec_gt_segment_coords
       spec_flag_diffs spec_gt_curve_latent (xs_mask_of spec_flag_diffs) spec_preds
   \<and> (\<exists>r. loss (AutoencoderKLWireframe_init spec_config) tiny_networks spec_gt_segment_coords
         spec_flag_diffs spec_gt_curve_latent (xs_mask_of spec_flag_diffs) spec_preds = Inr r)
   \<and> zero_invalid (xs_mask_of spec_flag_diffs) spec_gt_segment_coords
       = spec_gt_segment_coords_zeroed
   \<and> zero_invalid_offsets spec_flag_diffs = spec_flag_diffs_zeroed
   \<and> zero_invalid (xs_mask_of spec_flag_diffs) spec_gt_curve_latent
       = spec_gt_curve_latent_zeroed"
proof -
  have "\<exists>r. loss (AutoencoderKLWireframe_init spec_config) tiny_networks spec_gt_segment_coords
         spec_flag_diffs spec_gt_curve_latent (xs_mask_of spec_flag_diffs) spec_preds = Inr r"
    using spec_shapes_ok by (simp add: loss_def Let_def)
  moreover have "loss (AutoencoderKLWireframe_init spec_config) tiny_networks
     spec_gt_segment_coords_zeroed spec_flag_diffs_zeroed spec_gt_curve_latent_zeroed
     (xs_mask_of spec_flag_diffs_zeroed) spec_preds
   = loss (AutoencoderKLWireframe_init spec_config) tiny_networks spec_gt_segment_coords
       spec_flag_diffs spec_gt_curve_latent (xs_mask_of spec_flag_diffs) spec_preds"
    by (rule loss_ignores_masked_ground_truth [THEN conjunct1])
       (simp_all add: xs_mask_of_def same_shape3_def spec_defs)
  moreover have "zero_invalid (xs_mask_of spec_flag_diffs) spec_gt_segment_coords
       = spec_gt_segment_coords_zeroed"
    "zero_invalid_offsets spec_flag_diffs = spec_flag_diffs_zeroed"
    "zero_invalid (xs_mask_of spec_flag_diffs) spec_gt_curve_latent
       = spec_gt_curve_latent_zeroed"
    by (simp_all add: xs_mask_of_def zero_invalid_offsets_def zero_row_def spec_defs)
  ultimately show ?thesis by simp
qed

end
